theory Spec2Isabelle
  imports Complex_Main "HOL-Library.Word"
begin

section \<open>Minimum-area enclosing triangle: a shallow embedding\<close>

text \<open>
  The program computes the minimum-area triangle enclosing a convex polygon with the
  rotating-support sweep of O'Rourke, Aggarwal, Maddila and Baldwin. The embedding follows
  the helper functions of namespace \<open>minEnclosingTriangle\<close> one by one.

  Conventions of the embedding:
  \<^item> \<open>float\<close> and \<open>double\<close> values are real numbers: arithmetic is exact, the
    conversions between \<open>float\<close> and \<open>double\<close> are the identity, and \<open>std::sqrt\<close>,
    \<open>std::abs\<close>, \<open>std::max\<close> and \<open>std::atan2\<close> are the mathematical functions.
    The sweep is followed in this arithmetic. For \<open>angleOfLineWrtOxAxis\<close> and
    \<open>areaOfTriangle\<close>, whose values as numbers are the subject of a claim, a second
    definition writes out the rounding of every operation;
  \<^item> \<open>unsigned int\<close> is a 32-bit word; the codes \<open>INTERSECTS_*\<close> and
    \<open>VALIDATION_*\<close>, which the source defines as macros, are datatypes;
  \<^item> a \<open>bool\<close> result with an output parameter is an \<open>option\<close>: \<open>None\<close> is
    \<open>false\<close>, \<open>Some v\<close> is \<open>true\<close> with the value written to the output parameter;
  \<^item> \<open>CV_Assert\<close> and \<open>CV_Error\<close> throw: a function that may throw returns
    \<open>error + 'a\<close>, with \<open>Inl\<close> the exception;
  \<^item> a \<open>while\<close> loop is a \<open>partial_function\<close> in the option monad: \<open>None\<close> is a
    loop that never ends.
\<close>

subsection \<open>Data\<close>

type_synonym u32 = "32 word"

record Point2f =
  px :: real
  py :: real

type_synonym polygon = "Point2f list"

text \<open>The three coefficients that \<open>lineEquationParameters\<close> pushes into its vector.\<close>

type_synonym lineParams = "real \<times> real \<times> real"

datatype intersection = INTERSECTS_BELOW | INTERSECTS_ABOVE | INTERSECTS_CRITICAL

datatype validation =
  VALIDATION_SIDE_A_TANGENT | VALIDATION_SIDE_B_TANGENT | VALIDATION_SIDES_FLUSH

text \<open>
  The exceptions: the two messages passed to \<open>CV_Error\<close>, and the failure of a
  \<open>CV_Assert\<close>.
\<close>

datatype error = ERR_SIDE_B_GAMMA | ERR_VERTEX_C_ON_SIDE_B | AssertionFailed

definition EPSILON :: real where
  "EPSILON = 1 / 100000"

text \<open>\<open>std::numeric_limits<double>::max()\<close>.\<close>

definition DBL_MAX :: real where
  "DBL_MAX = (2 ^ 53 - 1) * 2 ^ 971"

text \<open>The largest \<open>float\<close>, a bound on the coordinates of a \<open>Point2f\<close>.\<close>

definition FLT_MAX :: real where
  "FLT_MAX = (2 ^ 24 - 1) * 2 ^ 104"

text \<open>The constructor \<open>cv::Point2f(x, y)\<close>.\<close>

definition Point :: "real \<Rightarrow> real \<Rightarrow> Point2f" where
  "Point a b = \<lparr>px = a, py = b\<rparr>"

text \<open>\<open>polygon[i]\<close> for an \<open>unsigned int\<close> index.\<close>

definition nth_point :: "polygon \<Rightarrow> u32 \<Rightarrow> Point2f" where
  "nth_point polygon i = polygon ! unat i"

subsection \<open>Comparisons with a threshold\<close>

definition maximum :: "real \<Rightarrow> real \<Rightarrow> real \<Rightarrow> real" where
  "maximum number1 number2 number3 = max (max number1 number2) number3"

definition almostEqual :: "real \<Rightarrow> real \<Rightarrow> bool" where
  "almostEqual number1 number2 \<longleftrightarrow>
     \<bar>number1 - number2\<bar> \<le> EPSILON * maximum 1 \<bar>number1\<bar> \<bar>number2\<bar>"

definition greaterOrEqual :: "real \<Rightarrow> real \<Rightarrow> bool" where
  "greaterOrEqual number1 number2 \<longleftrightarrow> number1 > number2 \<or> almostEqual number1 number2"

definition lessOrEqual :: "real \<Rightarrow> real \<Rightarrow> bool" where
  "lessOrEqual number1 number2 \<longleftrightarrow> number1 < number2 \<or> almostEqual number1 number2"

definition sign :: "real \<Rightarrow> int" where
  "sign number = (if number > 0 then 1 else if number < 0 then - 1 else 0)"

definition areEqualPoints :: "Point2f \<Rightarrow> Point2f \<Rightarrow> bool" where
  "areEqualPoints point1 point2 \<longleftrightarrow>
     almostEqual (px point1) (px point2) \<and> almostEqual (py point1) (py point2)"

subsection \<open>Polygon index arithmetic\<close>

definition successor :: "u32 \<Rightarrow> u32 \<Rightarrow> u32" where
  "successor index nrOfPoints = (index + 1) mod nrOfPoints"

definition predecessor :: "u32 \<Rightarrow> u32 \<Rightarrow> u32" where
  "predecessor index nrOfPoints = (if index = 0 then nrOfPoints - 1 else index - 1)"

definition advance :: "u32 \<Rightarrow> u32 \<Rightarrow> u32" where
  "advance index nrOfPoints = successor index nrOfPoints"

subsection \<open>Geometry primitives\<close>

text \<open>\<open>std::atan2\<close>, with the value 0 at the origin.\<close>

definition atan2 :: "real \<Rightarrow> real \<Rightarrow> real" where
  "atan2 y x =
     (if 0 < x then arctan (y / x)
      else if x < 0 then (if 0 \<le> y then arctan (y / x) + pi else arctan (y / x) - pi)
      else if 0 < y then pi / 2
      else if y < 0 then - (pi / 2)
      else 0)"

definition angleOfLineWrtOxAxis :: "Point2f \<Rightarrow> Point2f \<Rightarrow> real" where
  "angleOfLineWrtOxAxis a b =
     (let y = py b - py a;
          x = px b - px a;
          angle = atan2 y x * 180 / pi
      in if angle < 0 then angle + 360 else angle)"

definition oppositeAngle :: "real \<Rightarrow> real" where
  "oppositeAngle angle = (if angle > 180 then angle - 180 else angle + 180)"

text \<open>The conversion \<open>(int)\<close> of a \<open>double\<close> discards the fractional part.\<close>

definition int_cast :: "real \<Rightarrow> int" where
  "int_cast d = (if 0 \<le> d then \<lfloor>d\<rfloor> else \<lceil>d\<rceil>)"

text \<open>The operator \<open>%\<close> on \<open>int\<close>: the remainder has the sign of the dividend.\<close>

definition int_rem :: "int \<Rightarrow> int \<Rightarrow> int" where
  "int_rem i j = sgn i * (\<bar>i\<bar> mod \<bar>j\<bar>)"

definition isAngleBetween :: "real \<Rightarrow> real \<Rightarrow> real \<Rightarrow> bool" where
  "isAngleBetween angle1 angle2 angle3 =
     (if int_rem (int_cast (angle2 - angle3)) 180 > 0
      then angle3 < angle1 \<and> angle1 < angle2
      else angle2 < angle1 \<and> angle1 < angle3)"

definition isAngleBetweenNonReflex :: "real \<Rightarrow> real \<Rightarrow> real \<Rightarrow> bool" where
  "isAngleBetweenNonReflex angle1 angle2 angle3 =
     (if \<bar>angle2 - angle3\<bar> > 180 then
        (if angle2 > angle3
         then (angle2 < angle1 \<and> lessOrEqual angle1 360) \<or>
              (lessOrEqual 0 angle1 \<and> angle1 < angle3)
         else (angle3 < angle1 \<and> lessOrEqual angle1 360) \<or>
              (lessOrEqual 0 angle1 \<and> angle1 < angle2))
      else isAngleBetween angle1 angle2 angle3)"

definition isOppositeAngleBetweenNonReflex :: "real \<Rightarrow> real \<Rightarrow> real \<Rightarrow> bool" where
  "isOppositeAngleBetweenNonReflex angle1 angle2 angle3 =
     (let angle1Opposite = oppositeAngle angle1
      in isAngleBetweenNonReflex angle1Opposite angle2 angle3)"

text \<open>
  \<open>isFlushAngleBtwPredAndSucc\<close> takes \<open>angleFlushEdge\<close> by reference and may
  overwrite it: the result is the returned \<open>bool\<close> with the final value of the angle.
\<close>

definition isFlushAngleBtwPredAndSucc :: "real \<Rightarrow> real \<Rightarrow> real \<Rightarrow> bool \<times> real" where
  "isFlushAngleBtwPredAndSucc angleFlushEdge anglePred angleSucc =
     (if isAngleBetweenNonReflex angleFlushEdge anglePred angleSucc then (True, angleFlushEdge)
      else if isOppositeAngleBetweenNonReflex angleFlushEdge anglePred angleSucc
      then (True, oppositeAngle angleFlushEdge)
      else (False, angleFlushEdge))"

definition isGammaAngleEqualTo :: "real \<Rightarrow> real \<Rightarrow> bool" where
  "isGammaAngleEqualTo gammaAngle angle = almostEqual gammaAngle angle"

definition isGammaAngleBtw :: "real \<Rightarrow> real \<Rightarrow> real \<Rightarrow> bool" where
  "isGammaAngleBtw gammaAngle angle1 angle2 = isAngleBetweenNonReflex gammaAngle angle1 angle2"

definition distanceFromPointToLine :: "Point2f \<Rightarrow> Point2f \<Rightarrow> Point2f \<Rightarrow> real" where
  "distanceFromPointToLine a linePointB linePointC =
     (let term1 = px linePointC - px linePointB;
          term2 = py linePointB - py a;
          term3 = px linePointB - px a;
          term4 = py linePointC - py linePointB;
          nominator = \<bar>(term1 * term2) - (term3 * term4)\<bar>;
          denominator = sqrt ((term1 * term1) + (term4 * term4))
      in if denominator \<noteq> 0 then nominator / denominator else 0)"

definition distanceBtwPoints :: "Point2f \<Rightarrow> Point2f \<Rightarrow> real" where
  "distanceBtwPoints a b =
     (let xDiff = px a - px b;
          yDiff = py a - py b
      in sqrt ((xDiff * xDiff) + (yDiff * yDiff)))"

definition areaOfTriangle :: "Point2f \<Rightarrow> Point2f \<Rightarrow> Point2f \<Rightarrow> real" where
  "areaOfTriangle a b c =
     (let posTerm = (px a * py b) + (py a * px c) + (px b * py c);
          negTerm = (py b * px c) + (px a * py c) + (py a * px b);
          determinant = posTerm - negTerm
      in \<bar>determinant\<bar> / 2)"

definition middlePoint :: "Point2f \<Rightarrow> Point2f \<Rightarrow> Point2f" where
  "middlePoint a b =
     (let middleX = (px a + px b) / 2;
          middleY = (py a + py b) / 2
      in Point middleX middleY)"

text \<open>\<open>lineIntersection\<close> on the coefficients of \<open>A1x + B1y = C1\<close> and \<open>A2x + B2y = C2\<close>.\<close>

definition lineIntersection_coef ::
  "real \<Rightarrow> real \<Rightarrow> real \<Rightarrow> real \<Rightarrow> real \<Rightarrow> real \<Rightarrow> Point2f option" where
  "lineIntersection_coef a1 b1 c1 a2 b2 c2 =
     (let det = (a1 * b2) - (a2 * b1)
      in if \<not> almostEqual det 0
         then Some (Point (((c1 * b2) - (c2 * b1)) / det) (((c2 * a1) - (c1 * a2)) / det))
         else None)"

text \<open>\<open>lineIntersection\<close> on two pairs of points.\<close>

definition lineIntersection ::
  "Point2f \<Rightarrow> Point2f \<Rightarrow> Point2f \<Rightarrow> Point2f \<Rightarrow> Point2f option" where
  "lineIntersection a1 b1 a2 b2 =
     (let A1 = py b1 - py a1;
          B1 = px a1 - px b1;
          C1 = (px a1 * A1) + (py a1 * B1);
          A2 = py b2 - py a2;
          B2 = px a2 - px b2;
          C2 = (px a2 * A2) + (py a2 * B2);
          det = (A1 * B2) - (A2 * B1)
      in if \<not> almostEqual det 0
         then Some (Point (((C1 * B2) - (C2 * B1)) / det) (((C2 * A1) - (C1 * A2)) / det))
         else None)"

definition lineEquationDeterminedByPoints :: "Point2f \<Rightarrow> Point2f \<Rightarrow> error + lineParams" where
  "lineEquationDeterminedByPoints p q =
     (if areEqualPoints p q then Inl AssertionFailed
      else (let a = py q - py p;
                b = px p - px q;
                c = ((- py p) * b) - (px p * a)
            in Inr (a, b, c)))"

definition lineEquationParameters :: "Point2f \<Rightarrow> Point2f \<Rightarrow> error + lineParams" where
  "lineEquationParameters p q = lineEquationDeterminedByPoints p q"

definition areOnTheSameSideOfLine ::
  "Point2f \<Rightarrow> Point2f \<Rightarrow> Point2f \<Rightarrow> Point2f \<Rightarrow> error + bool" where
  "areOnTheSameSideOfLine p1 p2 a b =
     (case lineEquationDeterminedByPoints a b of
        Inl e \<Rightarrow> Inl e
      | Inr (a1, b1, c1) \<Rightarrow>
          (let p1OnLine = (a1 * px p1) + (b1 * py p1) + c1;
               p2OnLine = (a1 * px p2) + (b1 * py p2) + c1
           in Inr (sign p1OnLine = sign p2OnLine)))"

definition isPointOnLineSegment :: "Point2f \<Rightarrow> Point2f \<Rightarrow> Point2f \<Rightarrow> bool" where
  "isPointOnLineSegment point lineSegmentStart lineSegmentEnd =
     (let d1 = distanceBtwPoints point lineSegmentStart;
          d2 = distanceBtwPoints point lineSegmentEnd;
          lineSegmentLength = distanceBtwPoints lineSegmentStart lineSegmentEnd
      in almostEqual (d1 + d2) lineSegmentLength)"

text \<open>\<open>areIdenticalLines\<close> on six coefficients.\<close>

definition areIdenticalLines_coef ::
  "real \<Rightarrow> real \<Rightarrow> real \<Rightarrow> real \<Rightarrow> real \<Rightarrow> real \<Rightarrow> bool" where
  "areIdenticalLines_coef a1 b1 c1 a2 b2 c2 =
     (let a1B2 = a1 * b2;
          a2B1 = a2 * b1;
          a1C2 = a1 * c2;
          a2C1 = a2 * c1;
          b1C2 = b1 * c2;
          b2C1 = b2 * c1
      in almostEqual a1B2 a2B1 \<and> almostEqual b1C2 b2C1 \<and> almostEqual a1C2 a2C1)"

text \<open>\<open>areIdenticalLines\<close> on two parameter vectors and the extra parameter of side C.\<close>

definition areIdenticalLines :: "lineParams \<Rightarrow> lineParams \<Rightarrow> real \<Rightarrow> bool" where
  "areIdenticalLines side1Params side2Params sideCExtraParam =
     (case side1Params of (s10, s11, s12) \<Rightarrow>
      case side2Params of (s20, s21, s22) \<Rightarrow>
        areIdenticalLines_coef s10 s11 (- s12) s20 s21 (- s22 - sideCExtraParam) \<or>
        areIdenticalLines_coef s10 s11 (- s12) s20 s21 (- s22 + sideCExtraParam))"

text \<open>
  \<open>areIntersectingLines\<close>: \<open>&&\<close> evaluates the second intersection only when the
  first one exists.
\<close>

definition areIntersectingLines ::
  "lineParams \<Rightarrow> lineParams \<Rightarrow> real \<Rightarrow> (Point2f \<times> Point2f) option" where
  "areIntersectingLines side1Params side2Params sideCExtraParam =
     (case side1Params of (s10, s11, s12) \<Rightarrow>
      case side2Params of (s20, s21, s22) \<Rightarrow>
        (case lineIntersection_coef s10 s11 (- s12) s20 s21 (- s22 - sideCExtraParam) of
           None \<Rightarrow> None
         | Some intersectionPoint1 \<Rightarrow>
             (case lineIntersection_coef s10 s11 (- s12) s20 s21 (- s22 + sideCExtraParam) of
                None \<Rightarrow> None
              | Some intersectionPoint2 \<Rightarrow> Some (intersectionPoint1, intersectionPoint2))))"

subsection \<open>Height and gamma\<close>

text \<open>\<open>height\<close> of a point given by value.\<close>

definition height_point :: "Point2f \<Rightarrow> polygon \<Rightarrow> u32 \<Rightarrow> u32 \<Rightarrow> real" where
  "height_point polygonPoint polygon nrOfPoints c =
     (let pointC = nth_point polygon c;
          pointCPredecessor = nth_point polygon (predecessor c nrOfPoints)
      in distanceFromPointToLine polygonPoint pointC pointCPredecessor)"

text \<open>\<open>height\<close> of a point given by its index.\<close>

definition height :: "u32 \<Rightarrow> polygon \<Rightarrow> u32 \<Rightarrow> u32 \<Rightarrow> real" where
  "height polygonPointIndex polygon nrOfPoints c =
     (let pointC = nth_point polygon c;
          pointCPredecessor = nth_point polygon (predecessor c nrOfPoints);
          polygonPoint = nth_point polygon polygonPointIndex
      in distanceFromPointToLine polygonPoint pointC pointCPredecessor)"

definition findGammaIntersectionPoints ::
  "polygon \<Rightarrow> u32 \<Rightarrow> u32 \<Rightarrow> u32 \<Rightarrow> Point2f \<Rightarrow> Point2f \<Rightarrow> Point2f \<Rightarrow> Point2f
     \<Rightarrow> error + (Point2f \<times> Point2f) option" where
  "findGammaIntersectionPoints polygon nrOfPoints c polygonPointIndex
       side1StartVertex side1EndVertex side2StartVertex side2EndVertex =
     (case lineEquationParameters side1StartVertex side1EndVertex of
        Inl e \<Rightarrow> Inl e
      | Inr side1Params \<Rightarrow>
     (case lineEquationParameters side2StartVertex side2EndVertex of
        Inl e \<Rightarrow> Inl e
      | Inr side2Params \<Rightarrow>
          (let polygonPointHeight = height polygonPointIndex polygon nrOfPoints c;
               distFormulaDenom =
                 sqrt ((fst side2Params * fst side2Params) +
                       (fst (snd side2Params) * fst (snd side2Params)));
               sideCExtraParam = 2 * polygonPointHeight * distFormulaDenom
           in case areIntersectingLines side1Params side2Params sideCExtraParam of
                None \<Rightarrow> Inr None
              | Some (intersectionPoint1, intersectionPoint2) \<Rightarrow>
                  if areIdenticalLines side1Params side2Params sideCExtraParam
                  then Inr (Some (side1StartVertex, side1EndVertex))
                  else Inr (Some (intersectionPoint1, intersectionPoint2)))))"

definition gamma :: "u32 \<Rightarrow> polygon \<Rightarrow> u32 \<Rightarrow> u32 \<Rightarrow> u32 \<Rightarrow> error + Point2f option" where
  "gamma polygonPointIndex polygon nrOfPoints a c =
     (case findGammaIntersectionPoints polygon nrOfPoints c polygonPointIndex
             (nth_point polygon a) (nth_point polygon (predecessor a nrOfPoints))
             (nth_point polygon c) (nth_point polygon (predecessor c nrOfPoints)) of
        Inl e \<Rightarrow> Inl e
      | Inr None \<Rightarrow> Inr None
      | Inr (Some (intersectionPoint1, intersectionPoint2)) \<Rightarrow>
          (case areOnTheSameSideOfLine intersectionPoint1
                  (nth_point polygon (successor c nrOfPoints))
                  (nth_point polygon c) (nth_point polygon (predecessor c nrOfPoints)) of
             Inl e \<Rightarrow> Inl e
           | Inr sameSide \<Rightarrow>
               Inr (Some (if sameSide then intersectionPoint1 else intersectionPoint2))))"

definition findVertexCOnSideB ::
  "polygon \<Rightarrow> u32 \<Rightarrow> u32 \<Rightarrow> u32 \<Rightarrow> Point2f \<Rightarrow> Point2f \<Rightarrow> Point2f \<Rightarrow> Point2f
     \<Rightarrow> error + Point2f" where
  "findVertexCOnSideB polygon nrOfPoints a c
       sideBStartVertex sideBEndVertex sideCStartVertex sideCEndVertex =
     (case findGammaIntersectionPoints polygon nrOfPoints c (predecessor a nrOfPoints)
             sideBStartVertex sideBEndVertex sideCStartVertex sideCEndVertex of
        Inl e \<Rightarrow> Inl e
      | Inr None \<Rightarrow> Inl ERR_VERTEX_C_ON_SIDE_B
      | Inr (Some (intersectionPoint1, intersectionPoint2)) \<Rightarrow>
          (case areOnTheSameSideOfLine intersectionPoint1
                  (nth_point polygon (successor c nrOfPoints))
                  (nth_point polygon c) (nth_point polygon (predecessor c nrOfPoints)) of
             Inl e \<Rightarrow> Inl e
           | Inr sameSide \<Rightarrow>
               Inr (if sameSide then intersectionPoint1 else intersectionPoint2)))"

subsection \<open>Intersection of a line and the polygon\<close>

definition intersectsAboveOrBelow :: "u32 \<Rightarrow> u32 \<Rightarrow> polygon \<Rightarrow> u32 \<Rightarrow> u32 \<Rightarrow> intersection" where
  "intersectsAboveOrBelow succPredIndex pointIndex polygon nrOfPoints c =
     (if height succPredIndex polygon nrOfPoints c > height pointIndex polygon nrOfPoints c
      then INTERSECTS_ABOVE
      else INTERSECTS_BELOW)"

definition intersects :: "real \<Rightarrow> u32 \<Rightarrow> polygon \<Rightarrow> u32 \<Rightarrow> u32 \<Rightarrow> intersection" where
  "intersects angleGammaAndPoint polygonPointIndex polygon nrOfPoints c =
     (let anglePointPredecessor =
            angleOfLineWrtOxAxis (nth_point polygon (predecessor polygonPointIndex nrOfPoints))
                                 (nth_point polygon polygonPointIndex);
          anglePointSuccessor =
            angleOfLineWrtOxAxis (nth_point polygon (successor polygonPointIndex nrOfPoints))
                                 (nth_point polygon polygonPointIndex);
          flush = isFlushAngleBtwPredAndSucc
                    (angleOfLineWrtOxAxis (nth_point polygon (predecessor c nrOfPoints))
                                          (nth_point polygon c))
                    anglePointPredecessor anglePointSuccessor;
          angleFlushEdge = snd flush
      in if fst flush then
           (if isGammaAngleBtw angleGammaAndPoint anglePointPredecessor angleFlushEdge \<or>
               almostEqual angleGammaAndPoint anglePointPredecessor
            then intersectsAboveOrBelow (predecessor polygonPointIndex nrOfPoints)
                   polygonPointIndex polygon nrOfPoints c
            else if isGammaAngleBtw angleGammaAndPoint anglePointSuccessor angleFlushEdge \<or>
                    almostEqual angleGammaAndPoint anglePointSuccessor
            then intersectsAboveOrBelow (successor polygonPointIndex nrOfPoints)
                   polygonPointIndex polygon nrOfPoints c
            else INTERSECTS_CRITICAL)
         else
           (if isGammaAngleBtw angleGammaAndPoint anglePointPredecessor anglePointSuccessor \<or>
               (isGammaAngleEqualTo angleGammaAndPoint anglePointPredecessor \<and>
                \<not> isGammaAngleEqualTo angleGammaAndPoint angleFlushEdge) \<or>
               (isGammaAngleEqualTo angleGammaAndPoint anglePointSuccessor \<and>
                \<not> isGammaAngleEqualTo angleGammaAndPoint angleFlushEdge)
            then INTERSECTS_BELOW
            else INTERSECTS_CRITICAL))"

definition intersectsBelow :: "Point2f \<Rightarrow> u32 \<Rightarrow> polygon \<Rightarrow> u32 \<Rightarrow> u32 \<Rightarrow> bool" where
  "intersectsBelow gammaPoint polygonPointIndex polygon nrOfPoints c =
     (let angleOfGammaAndPoint =
            angleOfLineWrtOxAxis (nth_point polygon polygonPointIndex) gammaPoint
      in intersects angleOfGammaAndPoint polygonPointIndex polygon nrOfPoints c
           = INTERSECTS_BELOW)"

definition intersectsAbove :: "Point2f \<Rightarrow> u32 \<Rightarrow> polygon \<Rightarrow> u32 \<Rightarrow> u32 \<Rightarrow> bool" where
  "intersectsAbove gammaPoint polygonPointIndex polygon nrOfPoints c =
     (let angleOfGammaAndPoint =
            angleOfLineWrtOxAxis gammaPoint (nth_point polygon polygonPointIndex)
      in intersects angleOfGammaAndPoint polygonPointIndex polygon nrOfPoints c
           = INTERSECTS_ABOVE)"

subsection \<open>The three inner loops of the sweep\<close>

partial_function (option) advanceBToRightChain ::
  "polygon \<Rightarrow> u32 \<Rightarrow> u32 \<Rightarrow> u32 \<Rightarrow> u32 option" where
  "advanceBToRightChain polygon nrOfPoints b c =
     (if greaterOrEqual (height (successor b nrOfPoints) polygon nrOfPoints c)
                        (height b polygon nrOfPoints c)
      then advanceBToRightChain polygon nrOfPoints (advance b nrOfPoints) c
      else Some b)"

partial_function (option) moveAIfLowAndBIfHigh ::
  "polygon \<Rightarrow> u32 \<Rightarrow> u32 \<Rightarrow> u32 \<Rightarrow> u32 \<Rightarrow> (error + u32 \<times> u32) option" where
  "moveAIfLowAndBIfHigh polygon nrOfPoints a b c =
     (if height b polygon nrOfPoints c > height a polygon nrOfPoints c then
        (case gamma a polygon nrOfPoints a c of
           Inl e \<Rightarrow> Some (Inl e)
         | Inr None \<Rightarrow> moveAIfLowAndBIfHigh polygon nrOfPoints (advance a nrOfPoints) b c
         | Inr (Some gammaOfA) \<Rightarrow>
             if intersectsBelow gammaOfA b polygon nrOfPoints c
             then moveAIfLowAndBIfHigh polygon nrOfPoints a (advance b nrOfPoints) c
             else moveAIfLowAndBIfHigh polygon nrOfPoints (advance a nrOfPoints) b c)
      else Some (Inr (a, b)))"

partial_function (option) searchForBTangency ::
  "polygon \<Rightarrow> u32 \<Rightarrow> u32 \<Rightarrow> u32 \<Rightarrow> u32 \<Rightarrow> (error + u32) option" where
  "searchForBTangency polygon nrOfPoints a b c =
     (case gamma b polygon nrOfPoints a c of
        Inl e \<Rightarrow> Some (Inl e)
      | Inr None \<Rightarrow> Some (Inr b)
      | Inr (Some gammaOfB) \<Rightarrow>
          if intersectsBelow gammaOfB b polygon nrOfPoints c \<and>
             greaterOrEqual (height b polygon nrOfPoints c)
                            (height (predecessor a nrOfPoints) polygon nrOfPoints c)
          then searchForBTangency polygon nrOfPoints a (advance b nrOfPoints) c
          else Some (Inr b))"

subsection \<open>Setting the sides\<close>

definition isNotBTangency :: "polygon \<Rightarrow> u32 \<Rightarrow> u32 \<Rightarrow> u32 \<Rightarrow> u32 \<Rightarrow> error + bool" where
  "isNotBTangency polygon nrOfPoints a b c =
     (case gamma b polygon nrOfPoints a c of
        Inl e \<Rightarrow> Inl e
      | Inr None \<Rightarrow>
          Inr (height b polygon nrOfPoints c
                 < height (predecessor a nrOfPoints) polygon nrOfPoints c)
      | Inr (Some gammaOfB) \<Rightarrow>
          Inr (intersectsAbove gammaOfB b polygon nrOfPoints c \<or>
               height b polygon nrOfPoints c
                 < height (predecessor a nrOfPoints) polygon nrOfPoints c))"

text \<open>The result is \<open>(sideAStartVertex, sideAEndVertex, sideCStartVertex, sideCEndVertex)\<close>.\<close>

definition updateSidesCA ::
  "polygon \<Rightarrow> u32 \<Rightarrow> u32 \<Rightarrow> u32 \<Rightarrow> Point2f \<times> Point2f \<times> Point2f \<times> Point2f" where
  "updateSidesCA polygon nrOfPoints a c =
     (let sideCStartVertex = nth_point polygon (predecessor c nrOfPoints);
          sideCEndVertex = nth_point polygon c;
          sideAStartVertex = nth_point polygon (predecessor a nrOfPoints);
          sideAEndVertex = nth_point polygon a
      in (sideAStartVertex, sideAEndVertex, sideCStartVertex, sideCEndVertex))"

definition middlePointOfSideB ::
  "Point2f \<Rightarrow> Point2f \<Rightarrow> Point2f \<Rightarrow> Point2f \<Rightarrow> Point2f \<Rightarrow> Point2f \<Rightarrow> Point2f option" where
  "middlePointOfSideB sideAStartVertex sideAEndVertex sideBStartVertex sideBEndVertex
       sideCStartVertex sideCEndVertex =
     (case lineIntersection sideBStartVertex sideBEndVertex sideCStartVertex sideCEndVertex of
        None \<Rightarrow> None
      | Some vertexA \<Rightarrow>
          (case lineIntersection sideBStartVertex sideBEndVertex
                  sideAStartVertex sideAEndVertex of
             None \<Rightarrow> None
           | Some vertexC \<Rightarrow> Some (middlePoint vertexA vertexC)))"

text \<open>
  The result is \<open>(validationFlag, sideAStartVertex, sideAEndVertex, sideBStartVertex,
  sideBEndVertex)\<close>.
\<close>

definition updateSidesBA ::
  "polygon \<Rightarrow> u32 \<Rightarrow> u32 \<Rightarrow> u32 \<Rightarrow> u32 \<Rightarrow> Point2f \<Rightarrow> Point2f \<Rightarrow> Point2f \<Rightarrow> Point2f
     \<Rightarrow> error + validation \<times> Point2f \<times> Point2f \<times> Point2f \<times> Point2f" where
  "updateSidesBA polygon nrOfPoints a b c
       sideAStartVertex sideAEndVertex sideCStartVertex sideCEndVertex =
     (let sideBStartVertex = nth_point polygon (predecessor b nrOfPoints);
          sideBEndVertex = nth_point polygon b
      in case middlePointOfSideB sideAStartVertex sideAEndVertex sideBStartVertex
                sideBEndVertex sideCStartVertex sideCEndVertex of
           None \<Rightarrow>
             Inr (VALIDATION_SIDES_FLUSH, sideAStartVertex, sideAEndVertex,
                  sideBStartVertex, sideBEndVertex)
         | Some sideBMiddlePoint \<Rightarrow>
             if height_point sideBMiddlePoint polygon nrOfPoints c
                  < height (predecessor a nrOfPoints) polygon nrOfPoints c
             then (case findVertexCOnSideB polygon nrOfPoints a c sideBStartVertex
                          sideBEndVertex sideCStartVertex sideCEndVertex of
                     Inl e \<Rightarrow> Inl e
                   | Inr vertexC \<Rightarrow>
                       Inr (VALIDATION_SIDE_A_TANGENT,
                            nth_point polygon (predecessor a nrOfPoints), vertexC,
                            sideBStartVertex, sideBEndVertex))
             else Inr (VALIDATION_SIDES_FLUSH, sideAStartVertex, sideAEndVertex,
                       sideBStartVertex, sideBEndVertex))"

text \<open>The result is \<open>(validationFlag, sideBStartVertex, sideBEndVertex)\<close>.\<close>

definition updateSideB ::
  "polygon \<Rightarrow> u32 \<Rightarrow> u32 \<Rightarrow> u32 \<Rightarrow> u32 \<Rightarrow> error + validation \<times> Point2f \<times> Point2f" where
  "updateSideB polygon nrOfPoints a b c =
     (case gamma b polygon nrOfPoints a c of
        Inl e \<Rightarrow> Inl e
      | Inr None \<Rightarrow> Inl ERR_SIDE_B_GAMMA
      | Inr (Some sideBStartVertex) \<Rightarrow>
          Inr (VALIDATION_SIDE_B_TANGENT, sideBStartVertex, nth_point polygon b))"

subsection \<open>Candidate triangle and validation\<close>

definition isValidMinimalTriangle ::
  "Point2f \<Rightarrow> Point2f \<Rightarrow> Point2f \<Rightarrow> polygon \<Rightarrow> u32 \<Rightarrow> u32 \<Rightarrow> u32 \<Rightarrow> validation
     \<Rightarrow> Point2f \<Rightarrow> Point2f \<Rightarrow> Point2f \<Rightarrow> Point2f \<Rightarrow> Point2f \<Rightarrow> Point2f \<Rightarrow> bool" where
  "isValidMinimalTriangle vertexA vertexB vertexC polygon nrOfPoints a b validationFlag
       sideAStartVertex sideAEndVertex sideBStartVertex sideBEndVertex
       sideCStartVertex sideCEndVertex =
     (let midpointSideA = middlePoint vertexB vertexC;
          midpointSideB = middlePoint vertexA vertexC;
          midpointSideC = middlePoint vertexA vertexB;
          sideAValid =
            (if validationFlag = VALIDATION_SIDE_A_TANGENT
             then areEqualPoints midpointSideA (nth_point polygon (predecessor a nrOfPoints))
             else isPointOnLineSegment midpointSideA sideAStartVertex sideAEndVertex);
          sideBValid =
            (if validationFlag = VALIDATION_SIDE_B_TANGENT
             then areEqualPoints midpointSideB (nth_point polygon b)
             else isPointOnLineSegment midpointSideB sideBStartVertex sideBEndVertex);
          sideCValid =
            (validationFlag = VALIDATION_SIDES_FLUSH \<or>
             isPointOnLineSegment midpointSideC sideCStartVertex sideCEndVertex)
      in sideAValid \<and> sideBValid \<and> sideCValid)"

text \<open>
  \<open>isLocalMinimalTriangle\<close> writes the three vertices and returns a \<open>bool\<close>: \<open>None\<close>
  is \<open>false\<close>, \<open>Some (vertexA, vertexB, vertexC)\<close> is \<open>true\<close>.
\<close>

definition isLocalMinimalTriangle ::
  "polygon \<Rightarrow> u32 \<Rightarrow> u32 \<Rightarrow> u32 \<Rightarrow> validation
     \<Rightarrow> Point2f \<Rightarrow> Point2f \<Rightarrow> Point2f \<Rightarrow> Point2f \<Rightarrow> Point2f \<Rightarrow> Point2f
     \<Rightarrow> (Point2f \<times> Point2f \<times> Point2f) option" where
  "isLocalMinimalTriangle polygon nrOfPoints a b validationFlag
       sideAStartVertex sideAEndVertex sideBStartVertex sideBEndVertex
       sideCStartVertex sideCEndVertex =
     (case lineIntersection sideAStartVertex sideAEndVertex sideBStartVertex sideBEndVertex of
        None \<Rightarrow> None
      | Some vertexC \<Rightarrow>
     (case lineIntersection sideAStartVertex sideAEndVertex sideCStartVertex sideCEndVertex of
        None \<Rightarrow> None
      | Some vertexB \<Rightarrow>
     (case lineIntersection sideBStartVertex sideBEndVertex sideCStartVertex sideCEndVertex of
        None \<Rightarrow> None
      | Some vertexA \<Rightarrow>
          if isValidMinimalTriangle vertexA vertexB vertexC polygon nrOfPoints a b
               validationFlag sideAStartVertex sideAEndVertex sideBStartVertex
               sideBEndVertex sideCStartVertex sideCEndVertex
          then Some (vertexA, vertexB, vertexC)
          else None)))"

subsection \<open>The best triangle\<close>

text \<open>The triangle found so far and its area.\<close>

type_synonym best = "Point2f list \<times> real"

definition initialise :: best where
  "initialise = ([], DBL_MAX)"

definition updateMinimumAreaEnclosingTriangle ::
  "best \<Rightarrow> Point2f \<Rightarrow> Point2f \<Rightarrow> Point2f \<Rightarrow> best" where
  "updateMinimumAreaEnclosingTriangle best vertexA vertexB vertexC =
     (let triangleArea = areaOfTriangle vertexA vertexB vertexC
      in if triangleArea < snd best
         then ([] @ [vertexA] @ [vertexB] @ [vertexC], triangleArea)
         else best)"

definition returnMinimumAreaEnclosingTriangle :: "polygon \<Rightarrow> best \<Rightarrow> best" where
  "returnMinimumAreaEnclosingTriangle polygon best =
     (let nrOfPoints = (of_nat (length polygon) :: u32);
          triangle = fst best @ map (\<lambda>i. nth_point polygon (i mod nrOfPoints)) [0, 1, 2]
      in (triangle, areaOfTriangle (triangle ! 0) (triangle ! 1) (triangle ! 2)))"

subsection \<open>The sweep\<close>

text \<open>
  The body of the \<open>for\<close> loop after the three inner loops, in two parts. The first
  part sets the sides with \<open>updateSidesCA\<close> and then \<open>updateSidesBA\<close> or
  \<open>updateSideB\<close>; its result is \<open>(validationFlag, sideAStartVertex, sideAEndVertex,
  sideBStartVertex, sideBEndVertex, sideCStartVertex, sideCEndVertex)\<close>.
\<close>

definition sweepSides ::
  "polygon \<Rightarrow> u32 \<Rightarrow> u32 \<Rightarrow> u32 \<Rightarrow> u32
     \<Rightarrow> error + validation \<times> Point2f \<times> Point2f \<times> Point2f \<times> Point2f \<times> Point2f \<times> Point2f" where
  "sweepSides polygon nrOfPoints a b c =
     (case updateSidesCA polygon nrOfPoints a c of
        (sideAStartVertex, sideAEndVertex, sideCStartVertex, sideCEndVertex) \<Rightarrow>
     (case isNotBTangency polygon nrOfPoints a b c of
        Inl e \<Rightarrow> Inl e
      | Inr notBTangency \<Rightarrow>
          if notBTangency
          then (case updateSidesBA polygon nrOfPoints a b c sideAStartVertex sideAEndVertex
                       sideCStartVertex sideCEndVertex of
                  Inl e \<Rightarrow> Inl e
                | Inr (validationFlag, sideAStartVertex', sideAEndVertex',
                       sideBStartVertex, sideBEndVertex) \<Rightarrow>
                    Inr (validationFlag, sideAStartVertex', sideAEndVertex',
                         sideBStartVertex, sideBEndVertex, sideCStartVertex, sideCEndVertex))
          else (case updateSideB polygon nrOfPoints a b c of
                  Inl e \<Rightarrow> Inl e
                | Inr (validationFlag, sideBStartVertex, sideBEndVertex) \<Rightarrow>
                    Inr (validationFlag, sideAStartVertex, sideAEndVertex,
                         sideBStartVertex, sideBEndVertex, sideCStartVertex, sideCEndVertex))))"

text \<open>
  The second part tests the candidate with \<open>isLocalMinimalTriangle\<close> and updates the best
  triangle. The indices \<open>a\<close> and \<open>b\<close> are not changed in either part: the result is
  the best triangle.
\<close>

definition candidateTriangle ::
  "polygon \<Rightarrow> u32 \<Rightarrow> u32 \<Rightarrow> u32 \<Rightarrow> u32 \<Rightarrow> best \<Rightarrow> error + best" where
  "candidateTriangle polygon nrOfPoints a b c best =
     (case sweepSides polygon nrOfPoints a b c of
        Inl e \<Rightarrow> Inl e
      | Inr (validationFlag, sideAStartVertex, sideAEndVertex, sideBStartVertex,
             sideBEndVertex, sideCStartVertex, sideCEndVertex) \<Rightarrow>
          (case isLocalMinimalTriangle polygon nrOfPoints a b validationFlag
                  sideAStartVertex sideAEndVertex sideBStartVertex sideBEndVertex
                  sideCStartVertex sideCEndVertex of
             None \<Rightarrow> Inr best
           | Some (vertexA, vertexB, vertexC) \<Rightarrow>
               Inr (updateMinimumAreaEnclosingTriangle best vertexA vertexB vertexC)))"

text \<open>
  The body of the \<open>for\<close> loop of \<open>findMinimumAreaEnclosingTriangle\<close>, on the
  variables that live across iterations: \<open>a\<close>, \<open>b\<close> and the best triangle.
\<close>

definition sweepBody ::
  "polygon \<Rightarrow> u32 \<Rightarrow> u32 \<Rightarrow> u32 \<times> u32 \<times> best \<Rightarrow> (error + u32 \<times> u32 \<times> best) option" where
  "sweepBody polygon nrOfPoints c st =
     (case st of (a, b, best) \<Rightarrow>
      case advanceBToRightChain polygon nrOfPoints b c of
        None \<Rightarrow> None
      | Some b1 \<Rightarrow>
     (case moveAIfLowAndBIfHigh polygon nrOfPoints a b1 c of
        None \<Rightarrow> None
      | Some (Inl e) \<Rightarrow> Some (Inl e)
      | Some (Inr (a2, b2)) \<Rightarrow>
     (case searchForBTangency polygon nrOfPoints a2 b2 c of
        None \<Rightarrow> None
      | Some (Inl e) \<Rightarrow> Some (Inl e)
      | Some (Inr b3) \<Rightarrow>
          (case candidateTriangle polygon nrOfPoints a2 b3 c best of
             Inl e \<Rightarrow> Some (Inl e)
           | Inr best' \<Rightarrow> Some (Inr (a2, b3, best'))))))"

text \<open>The \<open>for\<close> loop: \<open>c\<close> runs from its start value up to \<open>nrOfPoints\<close>.\<close>

function sweepLoop ::
  "polygon \<Rightarrow> u32 \<Rightarrow> u32 \<Rightarrow> u32 \<times> u32 \<times> best \<Rightarrow> (error + u32 \<times> u32 \<times> best) option" where
  "sweepLoop polygon nrOfPoints c st =
     (if c < nrOfPoints then
        (case sweepBody polygon nrOfPoints c st of
           None \<Rightarrow> None
         | Some (Inl e) \<Rightarrow> Some (Inl e)
         | Some (Inr st') \<Rightarrow> sweepLoop polygon nrOfPoints (c + 1) st')
      else Some (Inr st))"
  by pat_completeness simp_all
termination
proof (relation "measure (\<lambda>(polygon, nrOfPoints, c, st). unat nrOfPoints - unat c)", goal_cases)
  case 1
  show ?case by (rule wf_measure)
next
  case (2 polygon nrOfPoints c st x2 x2a)
  then have less: "unat c < unat nrOfPoints"
    by (simp only: word_less_nat_alt)
  have "unat nrOfPoints < 2 ^ LENGTH(32)"
    by (rule unsigned_less)
  with less have "unat c + unat (1 :: u32) < 2 ^ LENGTH(32)"
    by simp
  then have "unat (c + 1) = unat c + unat (1 :: u32)"
    by (simp only: unat_add_lem)
  with less have "unat nrOfPoints - unat (c + 1) < unat nrOfPoints - unat c"
    by simp
  then show ?case
    by (simp only: in_measure prod.case)
qed

definition findMinimumAreaEnclosingTriangle :: "polygon \<Rightarrow> best \<Rightarrow> (error + best) option" where
  "findMinimumAreaEnclosingTriangle polygon best =
     (let nrOfPoints = (of_nat (length polygon) :: u32)
      in case sweepLoop polygon nrOfPoints 0 (1, 2, best) of
           None \<Rightarrow> None
         | Some (Inl e) \<Rightarrow> Some (Inl e)
         | Some (Inr (a, b, best')) \<Rightarrow> Some (Inr best'))"

text \<open>
  \<open>findMinEnclosingTriangle\<close> on a polygon: \<open>None\<close> when a loop of the sweep never ends,
  \<open>Some (Inl e)\<close> when an exception leaves the function, \<open>Some (Inr (triangle, area))\<close>
  when it returns.
\<close>

definition findMinEnclosingTriangle :: "polygon \<Rightarrow> (error + best) option" where
  "findMinEnclosingTriangle polygon =
     (if length polygon > 3
      then findMinimumAreaEnclosingTriangle polygon initialise
      else Some (Inr (returnMinimumAreaEnclosingTriangle polygon initialise)))"

subsection \<open>Arithmetic with rounding\<close>

text \<open>
  A \<open>float\<close> is a binary32 number and a \<open>double\<close> a binary64 number of IEEE 754. The
  result of an operation is the exact result rounded to the nearest number of the format,
  and to the one with an even significand when two are equally near: the default rounding.
  \<open>round_even\<close> rounds to an integer in this way. A format has \<open>p\<close> significant bits
  and the least exponent \<open>emin\<close>: the numbers near \<open>x\<close> are the multiples of
  \<open>2\<close> to the power \<open>max floor (log 2 |x|) emin - (p - 1)\<close>. \<open>ieee_round\<close> does not bound
  the exponent from above: a result beyond the largest number of the format is dealt with
  where it can occur.
\<close>

definition round_even :: "real \<Rightarrow> int" where
  "round_even x =
     (let f = \<lfloor>x\<rfloor>; d = x - of_int f
      in if d < 1 / 2 then f else if 1 / 2 < d then f + 1 else if even f then f else f + 1)"

definition ieee_round :: "nat \<Rightarrow> int \<Rightarrow> real \<Rightarrow> real" where
  "ieee_round p emin x =
     (if x = 0 then 0
      else (let e = max \<lfloor>log 2 \<bar>x\<bar>\<rfloor> emin - (int p - 1)
            in of_int (round_even (x / 2 powr of_int e)) * 2 powr of_int e))"

definition float_round :: "real \<Rightarrow> real" where
  "float_round = ieee_round 24 (- 126)"

definition double_round :: "real \<Rightarrow> real" where
  "double_round = ieee_round 53 (- 1022)"

text \<open>
  The macro \<open>CV_PI\<close> of OpenCV is \<open>3.1415926535897932384626433832795\<close>: as a
  \<open>double\<close>, the binary64 number nearest to \<open>\<pi>\<close>.
\<close>

definition CV_PI :: real where
  "CV_PI = 884279719003555 / 2 ^ 48"

text \<open>
  \<open>angleOfLineWrtOxAxis\<close> with the rounding of each operation: the two differences are
  operations on \<open>float\<close>, and the multiplication, the division and the addition are
  operations on \<open>double\<close>. \<open>std::atan2\<close> is taken as correctly rounded. The definition
  is the machine's computation when the two differences are in the range of \<open>float\<close>;
  all later values are below \<open>2 ^ 10\<close> in magnitude.
\<close>

definition angleOfLineWrtOxAxis_double :: "Point2f \<Rightarrow> Point2f \<Rightarrow> real" where
  "angleOfLineWrtOxAxis_double a b =
     (let y = float_round (py b - py a);
          x = float_round (px b - px a);
          angle = double_round (double_round (double_round (atan2 y x) * 180) / CV_PI)
      in if angle < 0 then double_round (angle + 360) else angle)"









subsection \<open>The specification's wording\<close>


text \<open>
  Step S2 of the sweep in the words of the specification: \<open>b\<close> advances when
  \<open>gamma(a)\<close> exists and the line through \<open>gamma(a)\<close> and \<open>P[a]\<close> intersects the
  polygon below at \<open>b\<close>. The line is directed from the polygon point to the gamma point,
  as in \<open>intersectsBelow\<close>. This definition follows those words, not the source.
\<close>

partial_function (option) moveAIfLowAndBIfHigh_spec ::
  "polygon \<Rightarrow> u32 \<Rightarrow> u32 \<Rightarrow> u32 \<Rightarrow> u32 \<Rightarrow> (error + u32 \<times> u32) option" where
  "moveAIfLowAndBIfHigh_spec polygon nrOfPoints a b c =
     (if height b polygon nrOfPoints c > height a polygon nrOfPoints c then
        (case gamma a polygon nrOfPoints a c of
           Inl e \<Rightarrow> Some (Inl e)
         | Inr None \<Rightarrow> moveAIfLowAndBIfHigh_spec polygon nrOfPoints (advance a nrOfPoints) b c
         | Inr (Some gammaOfA) \<Rightarrow>
             if intersects (angleOfLineWrtOxAxis (nth_point polygon a) gammaOfA)
                  b polygon nrOfPoints c = INTERSECTS_BELOW
             then moveAIfLowAndBIfHigh_spec polygon nrOfPoints a (advance b nrOfPoints) c
             else moveAIfLowAndBIfHigh_spec polygon nrOfPoints (advance a nrOfPoints) b c)
      else Some (Inr (a, b)))"



subsection \<open>The candidates of the sweep\<close>







subsection \<open>Polygons used as concrete inputs\<close>

text \<open>The unit square of the specification's scenarios.\<close>

definition unitSquare :: polygon where
  "unitSquare = [Point 0 0, Point 1 0, Point 1 1, Point 0 1]"

text \<open>
  A convex quadrilateral with integer coordinates, listed clockwise. Its first and last
  vertex differ by 1 in \<open>x\<close>, which is below the threshold at this magnitude.
\<close>

definition wideTrapezoid :: polygon where
  "wideTrapezoid = [Point 100001 100001, Point 200000 0, Point 0 0, Point 100000 100001]"

text \<open>A convex quadrilateral, listed counterclockwise.\<close>

definition rightTrapezoid :: polygon where
  "rightTrapezoid = [Point 1 1, Point 0 1, Point 0 0, Point 2 0]"


text \<open>
  A convex pentagon, listed counterclockwise: its top edge is parallel to its bottom edge
  at distance 2, and its vertex \<open>(3, 1)\<close> has height 1 over the bottom edge.
\<close>

definition housePentagon :: polygon where
  "housePentagon = [Point 0 0, Point 2 0, Point 3 1, Point 2 2, Point 0 2]"




section \<open>Properties\<close>

subsection \<open>Cyclic indices\<close>

lemma unat_plus_one: "i < n \<Longrightarrow> unat (i + 1) = unat i + 1" for i n :: u32
proof -
  assume "i < n"
  then have less: "unat i < unat n"
    by (simp only: word_less_nat_alt)
  have "unat n < 2 ^ LENGTH(32)"
    by (rule unsigned_less)
  with less have "unat i + unat (1 :: u32) < 2 ^ LENGTH(32)"
    by simp
  then have "unat (i + 1) = unat i + unat (1 :: u32)"
    by (simp only: unat_add_lem)
  then show ?thesis by simp
qed

lemma unat_successor: "i < n \<Longrightarrow> unat (successor i n) = (unat i + 1) mod unat n" for i n :: u32
  by (simp add: successor_def unat_mod unat_plus_one)

lemma unat_predecessor:
  "i < n \<Longrightarrow> unat (predecessor i n) = (if unat i = 0 then unat n - 1 else unat i - 1)" for i n :: u32
proof -
  assume less: "i < n"
  then have n0: "n \<noteq> 0" by auto
  show ?thesis
  proof (cases "i = 0")
    case True
    with n0 show ?thesis by (simp add: predecessor_def unat_minus_one)
  next
    case False
    then have "unat i \<noteq> 0" by (simp add: unat_eq_zero)
    with False show ?thesis by (simp add: predecessor_def unat_minus_one)
  qed
qed

lemma successor_less: "i < n \<Longrightarrow> successor i n < n" for i n :: u32
  by (simp add: word_less_nat_alt unat_successor)

lemma predecessor_less: "i < n \<Longrightarrow> predecessor i n < n" for i n :: u32
  by (auto simp add: word_less_nat_alt unat_predecessor)

lemma predecessor_successor: "i < n \<Longrightarrow> predecessor (successor i n) n = i" for i n :: u32
proof -
  assume less: "i < n"
  then have s: "successor i n < n" by (rule successor_less)
  from less have l: "unat i < unat n" by (simp only: word_less_nat_alt)
  have "unat (predecessor (successor i n) n) = unat i"
  proof (cases "unat i + 1 = unat n")
    case True
    then show ?thesis by (simp add: unat_predecessor [OF s] unat_successor [OF less])
  next
    case False
    with l have "unat i + 1 < unat n" by simp
    then show ?thesis by (simp add: unat_predecessor [OF s] unat_successor [OF less])
  qed
  then show ?thesis by (simp only: word_unat_eq_iff)
qed

lemma successor_predecessor: "i < n \<Longrightarrow> successor (predecessor i n) n = i" for i n :: u32
proof -
  assume less: "i < n"
  then have s: "predecessor i n < n" by (rule predecessor_less)
  from less have l: "unat i < unat n" by (simp only: word_less_nat_alt)
  have "unat (successor (predecessor i n) n) = unat i"
  proof (cases "unat i = 0")
    case True
    with l show ?thesis by (simp add: unat_predecessor [OF less] unat_successor [OF s])
  next
    case False
    with l show ?thesis by (simp add: unat_predecessor [OF less] unat_successor [OF s])
  qed
  then show ?thesis by (simp only: word_unat_eq_iff)
qed

text \<open>
  Claim C10. For a polygon of \<open>n \<ge> 1\<close> points and an index \<open>i < n\<close>, \<open>successor\<close>
  and \<open>predecessor\<close> stay below \<open>n\<close> and undo each other, also where the 32-bit
  arithmetic of \<open>unsigned int\<close> is at its limits.
\<close>

theorem cyclic_index_inverse:
  fixes i n :: u32
  assumes "1 \<le> n" and "i < n"
  shows "successor i n < n \<and> predecessor i n < n \<and>
         predecessor (successor i n) n = i \<and> successor (predecessor i n) n = i"
  using assms(2)
  by (simp add: successor_less predecessor_less predecessor_successor successor_predecessor)

theorem cyclic_index_inverse_witness:
  "(1 :: u32) \<le> 4 \<and> (3 :: u32) < 4 \<and> successor 3 4 = (0 :: u32) \<and> predecessor 0 4 = (3 :: u32)
     \<and> successor (3 :: u32) 4 < 4 \<and> predecessor (3 :: u32) 4 < 4 \<and>
         predecessor (successor 3 4) 4 = (3 :: u32) \<and> successor (predecessor 3 4) 4 = (3 :: u32)"
  using cyclic_index_inverse [of 4 3] by (simp add: successor_def predecessor_def)

subsection \<open>Rounding\<close>

lemma round_even_cases:
  "round_even x = \<lfloor>x\<rfloor> \<or> round_even x = \<lfloor>x\<rfloor> + 1"
  by (simp add: round_even_def Let_def)

lemma round_even_error: "\<bar>of_int (round_even x) - x\<bar> \<le> 1 / 2"
proof -
  have "of_int \<lfloor>x\<rfloor> \<le> x" "x < of_int \<lfloor>x\<rfloor> + 1" by linarith+
  then show ?thesis
    by (auto simp add: round_even_def Let_def)
qed

lemma round_even_near:
  assumes "\<bar>x - of_int n\<bar> < 1 / 2"
  shows "round_even x = n"
proof -
  from round_even_error [of x] assms have "\<bar>of_int (round_even x) - (of_int n :: real)\<bar> < 1"
    by linarith
  then have "\<bar>of_int (round_even x - n) :: real\<bar> < 1" by simp
  then have "\<bar>round_even x - n\<bar> < 1" by linarith
  then show ?thesis by simp
qed

lemma round_even_of_int [simp]: "round_even (of_int n) = n"
  by (rule round_even_near) simp

lemma round_even_le:
  assumes "x \<le> of_int n"
  shows "round_even x \<le> n"
proof (cases "x = of_int n")
  case True
  then show ?thesis by simp
next
  case False
  with assms have "x < of_int n" by simp
  then have "\<lfloor>x\<rfloor> < n" by (simp add: floor_less_iff)
  with round_even_cases [of x] show ?thesis by auto
qed

lemma round_even_ge:
  assumes "of_int n \<le> x"
  shows "n \<le> round_even x"
proof -
  from assms have "n \<le> \<lfloor>x\<rfloor>" by (simp add: le_floor_iff)
  with round_even_cases [of x] show ?thesis by auto
qed

lemma round_even_minus: "round_even (- x) = - round_even x"
proof (cases "x = of_int \<lfloor>x\<rfloor>")
  case True
  then have "- x = of_int (- \<lfloor>x\<rfloor>)" by simp
  then have "round_even (- x) = - \<lfloor>x\<rfloor>" by (simp only: round_even_of_int)
  moreover from True have "round_even x = \<lfloor>x\<rfloor>" by (metis round_even_of_int)
  ultimately show ?thesis by simp
next
  case False
  have b: "of_int \<lfloor>x\<rfloor> \<le> x" "x < of_int \<lfloor>x\<rfloor> + 1" by linarith+
  with False have lt: "of_int \<lfloor>x\<rfloor> < x" by linarith
  have cast: "real_of_int (- \<lfloor>x\<rfloor> - 1) = - real_of_int \<lfloor>x\<rfloor> - 1" by simp
  have fl: "\<lfloor>- x\<rfloor> = - \<lfloor>x\<rfloor> - 1"
  proof (rule floor_unique)
    show "real_of_int (- \<lfloor>x\<rfloor> - 1) \<le> - x" unfolding cast using b(2) by linarith
    show "- x < real_of_int (- \<lfloor>x\<rfloor> - 1) + 1" unfolding cast using lt by linarith
  qed
  define f where "f = \<lfloor>x\<rfloor>"
  define d where "d = x - of_int f"
  have d: "0 < d" "d < 1" unfolding d_def f_def using lt b(2) by linarith+
  have d': "- x - of_int (- f - 1) = 1 - d" by (simp add: d_def)
  have ev: "even (- f - 1) \<longleftrightarrow> odd f" by simp
  have r: "round_even x = (if d < 1 / 2 then f else if 1 / 2 < d then f + 1 else if even f then f else f + 1)"
    by (simp add: round_even_def Let_def d_def f_def)
  have r': "round_even (- x) = (if 1 - d < 1 / 2 then - f - 1 else if 1 / 2 < 1 - d then - f else if odd f then - f - 1 else - f)"
    unfolding round_even_def Let_def fl f_def [symmetric] d' ev by simp
  show ?thesis
  proof (cases "d < 1 / 2")
    case True
    then show ?thesis unfolding r r' by simp
  next
    case nlt: False
    show ?thesis
    proof (cases "1 / 2 < d")
      case True
      then show ?thesis unfolding r r' by simp
    next
      case False
      with nlt have "d = 1 / 2" by simp
      then show ?thesis unfolding r r' by simp
    qed
  qed
qed

lemma ieee_round_minus: "ieee_round p emin (- x) = - ieee_round p emin x"
  by (simp add: ieee_round_def Let_def round_even_minus)

lemma ieee_round_unfold:
  assumes "x \<noteq> 0"
  shows "ieee_round p emin x =
           of_int (round_even (x / 2 powr of_int (max \<lfloor>log 2 \<bar>x\<bar>\<rfloor> emin - (int p - 1)))) *
             2 powr of_int (max \<lfloor>log 2 \<bar>x\<bar>\<rfloor> emin - (int p - 1))"
  using assms by (simp add: ieee_round_def Let_def)

lemma floor_log2_bounds:
  assumes "x \<noteq> 0"
  shows "2 powr of_int \<lfloor>log 2 \<bar>x\<bar>\<rfloor> \<le> \<bar>x\<bar> \<and> \<bar>x\<bar> < 2 powr (of_int \<lfloor>log 2 \<bar>x\<bar>\<rfloor> + 1)"
proof -
  from assms have "0 < \<bar>x\<bar>" by simp
  then show ?thesis
    using floor_log_eq_powr_iff [of "\<bar>x\<bar>" 2 "\<lfloor>log 2 \<bar>x\<bar>\<rfloor>"] by simp
qed

lemma floor_log2_eq:
  assumes "2 powr of_int k \<le> \<bar>x\<bar>" and "\<bar>x\<bar> < 2 powr (of_int k + 1)"
  shows "\<lfloor>log 2 \<bar>x\<bar>\<rfloor> = k"
proof -
  have "0 < 2 powr (of_int k :: real)" by simp
  with assms(1) have "0 < \<bar>x\<bar>" by linarith
  then show ?thesis
    using floor_log_eq_powr_iff [of "\<bar>x\<bar>" 2 k] assms by simp
qed

lemma ieee_round_binade:
  assumes "2 powr of_int k \<le> \<bar>x\<bar>" and "\<bar>x\<bar> < 2 powr (of_int k + 1)" and "emin \<le> k"
  shows "ieee_round p emin x =
           of_int (round_even (x / 2 powr of_int (k - (int p - 1)))) *
             2 powr of_int (k - (int p - 1))"
proof -
  have "0 < 2 powr (of_int k :: real)" by simp
  with assms(1) have nz: "x \<noteq> 0" by auto
  from assms(3) have "max k emin = k" by simp
  then show ?thesis
    unfolding ieee_round_unfold [OF nz] floor_log2_eq [OF assms(1,2)] by simp
qed

lemma ieee_round_error:
  assumes "1 \<le> p"
  shows "\<bar>ieee_round p emin x - x\<bar> \<le> \<bar>x\<bar> / 2 ^ p + 2 powr of_int (emin - int p)"
proof (cases "x = 0")
  case True
  then show ?thesis by (simp add: ieee_round_def)
next
  case False
  define e0 where "e0 = \<lfloor>log 2 \<bar>x\<bar>\<rfloor>"
  define u :: real where "u = 2 powr of_int (max e0 emin - (int p - 1))"
  have u: "0 < u" by (simp add: u_def)
  have rd: "ieee_round p emin x = of_int (round_even (x / u)) * u"
    unfolding ieee_round_unfold [OF False] u_def e0_def ..
  have "ieee_round p emin x - x = (of_int (round_even (x / u)) - x / u) * u"
    using u by (simp add: rd field_simps)
  then have "\<bar>ieee_round p emin x - x\<bar> = \<bar>of_int (round_even (x / u)) - x / u\<bar> * u"
    using u by (simp add: abs_mult)
  also have "\<dots> \<le> 1 / 2 * u"
    using round_even_error [of "x / u"] u by (intro mult_right_mono) simp_all
  finally have err: "\<bar>ieee_round p emin x - x\<bar> \<le> u / 2" by simp
  have half: "u / 2 = 2 powr of_int (max e0 emin - int p)"
  proof -
    have "real_of_int (max e0 emin - (int p - 1)) = of_int (max e0 emin - int p) + 1"
      by simp
    then have "(2 :: real) powr of_int (max e0 emin - (int p - 1)) =
            2 powr (of_int (max e0 emin - int p) + 1)"
      by (simp only:)
    also have "\<dots> = 2 powr of_int (max e0 emin - int p) * (2 :: real)"
      by (simp only: powr_add powr_one)
    finally show ?thesis by (simp add: u_def)
  qed
  have low: "2 powr of_int e0 \<le> \<bar>x\<bar>"
    using floor_log2_bounds [OF False] by (simp add: e0_def)
  have pw: "(2 :: real) ^ p = 2 powr of_int (int p)"
    by (simp add: powr_realpow)
  have "2 powr of_int (e0 - int p) = 2 powr of_int e0 / (2 :: real) ^ p"
    unfolding pw by (simp add: powr_diff)
  also have "\<dots> \<le> \<bar>x\<bar> / 2 ^ p"
    using low by (simp add: divide_right_mono)
  finally have a: "2 powr of_int (e0 - int p) \<le> \<bar>x\<bar> / 2 ^ p" .
  have "2 powr of_int (max e0 emin - int p) \<le> \<bar>x\<bar> / 2 ^ p + 2 powr of_int (emin - int p)"
  proof (cases "emin \<le> e0")
    case True
    then have "max e0 emin = e0" by simp
    with a show ?thesis by (simp add: add_increasing2)
  next
    case False
    then have "max e0 emin = emin" by simp
    then show ?thesis by simp
  qed
  with err half show ?thesis by simp
qed

lemma ieee_round_range:
  assumes "2 powr of_int k \<le> x" and "x \<le> 2 powr of_int m" and "emin \<le> k" and "1 \<le> p"
  shows "2 powr of_int k \<le> ieee_round p emin x \<and> ieee_round p emin x \<le> 2 powr of_int m"
proof -
  have "0 < 2 powr (of_int k :: real)" by simp
  with assms(1) have pos: "0 < x" by linarith
  then have nz: "x \<noteq> 0" and ab: "\<bar>x\<bar> = x" by simp_all
  define e0 where "e0 = \<lfloor>log 2 \<bar>x\<bar>\<rfloor>"
  have b: "2 powr of_int e0 \<le> x" "x < 2 powr (of_int e0 + 1)"
    using floor_log2_bounds [OF nz] by (simp_all add: e0_def ab)
  have ke: "k \<le> e0"
  proof (rule ccontr)
    assume "\<not> k \<le> e0"
    then have "e0 + 1 \<le> k" by simp
    then have "real_of_int (e0 + 1) \<le> real_of_int k" by (simp only: of_int_le_iff)
    then have "(2 :: real) powr (of_int e0 + 1) \<le> 2 powr of_int k"
      by (intro powr_mono) simp_all
    with b(2) assms(1) show False by linarith
  qed
  have em: "e0 \<le> m"
  proof (rule ccontr)
    assume "\<not> e0 \<le> m"
    then have "m + 1 \<le> e0" by simp
    then have "real_of_int (m + 1) \<le> real_of_int e0" by (simp only: of_int_le_iff)
    then have "(2 :: real) powr (of_int m + 1) \<le> 2 powr of_int e0"
      by (intro powr_mono) simp_all
    moreover have "(2 :: real) powr of_int m < 2 powr (of_int m + 1)"
      by (intro powr_less_mono) simp_all
    ultimately show False using b(1) assms(2) by linarith
  qed
  from ke assms(3) have "emin \<le> e0" by simp
  define u :: real where "u = 2 powr of_int (e0 - (int p - 1))"
  have u: "0 < u" by (simp add: u_def)
  have rd: "ieee_round p emin x = of_int (round_even (x / u)) * u"
    unfolding u_def
    by (rule ieee_round_binade) (simp_all add: ab b \<open>emin \<le> e0\<close>)
  from assms(4) obtain q where q: "p = Suc q" by (cases p) auto
  have lo: "2 powr of_int e0 = of_int (2 ^ q) * u"
  proof -
    have "of_int e0 = real q + of_int (e0 - (int p - 1))" by (simp add: q)
    then have "2 powr of_int e0 = 2 powr (real q) * u"
      unfolding u_def by (simp only: powr_add)
    then show ?thesis by (simp add: powr_realpow)
  qed
  have hi: "2 powr (of_int e0 + 1) = of_int (2 ^ p) * u"
  proof -
    have "of_int e0 + 1 = real p + of_int (e0 - (int p - 1))" by simp
    then have "2 powr (of_int e0 + 1) = 2 powr (real p) * u"
      unfolding u_def by (simp only: powr_add)
    then show ?thesis by (simp add: powr_realpow)
  qed
  from b(1) lo u have "of_int (2 ^ q) \<le> x / u" by (simp add: field_simps)
  then have "2 ^ q \<le> round_even (x / u)" by (rule round_even_ge)
  then have "real_of_int (2 ^ q) \<le> of_int (round_even (x / u))" by (simp only: of_int_le_iff)
  with u have "of_int (2 ^ q) * u \<le> of_int (round_even (x / u)) * u"
    by (intro mult_right_mono) simp_all
  with lo rd have "2 powr of_int e0 \<le> ieee_round p emin x" by simp
  moreover from ke have "(2 :: real) powr of_int k \<le> 2 powr of_int e0"
    by (intro powr_mono) simp_all
  ultimately have lower: "2 powr of_int k \<le> ieee_round p emin x" by linarith
  from b(2) hi u have "x / u \<le> of_int (2 ^ p)" by (simp add: field_simps)
  then have "round_even (x / u) \<le> 2 ^ p" by (rule round_even_le)
  then have "real_of_int (round_even (x / u)) \<le> of_int (2 ^ p)" by (simp only: of_int_le_iff)
  with u have "of_int (round_even (x / u)) * u \<le> of_int (2 ^ p) * u"
    by (intro mult_right_mono) simp_all
  with hi rd have up1: "ieee_round p emin x \<le> 2 powr (of_int e0 + 1)" by simp
  have upper: "ieee_round p emin x \<le> 2 powr of_int m"
  proof (cases "e0 = m")
    case True
    with b(1) assms(2) have "x = 2 powr of_int e0" by simp
    with lo u have "x / u = of_int (2 ^ q)" by simp
    then have "round_even (x / u) = 2 ^ q" by (simp only: round_even_of_int)
    with rd lo have "ieee_round p emin x = 2 powr of_int e0" by simp
    with True show ?thesis by simp
  next
    case False
    with em have "e0 + 1 \<le> m" by simp
    then have "real_of_int (e0 + 1) \<le> real_of_int m" by (simp only: of_int_le_iff)
    then have "(2 :: real) powr (of_int e0 + 1) \<le> 2 powr of_int m"
      by (intro powr_mono) simp_all
    with up1 show ?thesis by linarith
  qed
  from lower upper show ?thesis ..
qed

lemma pow2_int:
  "(2 :: real) powr of_int (int n) = 2 ^ n"
  "(2 :: real) powr of_int (- int n) = 1 / 2 ^ n"
  by (simp_all add: powr_realpow powr_minus divide_inverse)

lemma double_round_error: "\<bar>double_round x - x\<bar> \<le> \<bar>x\<bar> / 2 ^ 53 + 1 / 2 ^ 1075"
proof -
  have "(2 :: real) powr of_int (- 1022 - int 53) = 1 / 2 ^ 1075"
    using pow2_int(2) [of 1075] by simp
  with ieee_round_error [of 53 "- 1022" x] show ?thesis
    by (simp add: double_round_def)
qed

lemma double_round_crude: "\<bar>double_round x\<bar> \<le> \<bar>x\<bar> * (1001 / 1000) + 1 / 1000"
proof -
  have "\<bar>x\<bar> / 2 ^ 53 \<le> \<bar>x\<bar> / 1000"
    by (intro divide_left_mono) simp_all
  moreover have "(1 :: real) / 2 ^ 1075 \<le> 1 / 1000" by simp
  ultimately show ?thesis using double_round_error [of x] by linarith
qed

lemma double_round_below_360:
  assumes "1 \<le> s" and "s < 360"
  shows "0 \<le> double_round s \<and> double_round s \<le> 360"
proof (cases "s < 256")
  case True
  have err: "\<bar>double_round s - s\<bar> \<le> \<bar>s\<bar> / 2 ^ 53 + 1 / 2 ^ 1075"
    by (rule double_round_error)
  have "\<bar>s\<bar> / 2 ^ 53 \<le> \<bar>s\<bar> / 4" by (intro divide_left_mono) simp_all
  moreover have "(1 :: real) / 2 ^ 1075 \<le> 1 / 4" by simp
  ultimately have "\<bar>double_round s - s\<bar> \<le> \<bar>s\<bar> / 4 + 1 / 4" using err by linarith
  with True assms(1) show ?thesis by (simp add: abs_if split: if_splits)
next
  case False
  then have lo: "2 powr of_int 8 \<le> \<bar>s\<bar>"
    using pow2_int(1) [of 8] by simp
  from assms have hi: "\<bar>s\<bar> < 2 powr (of_int 8 + 1)"
    using pow2_int(1) [of 9] by simp
  have u: "(2 :: real) powr of_int (8 - (int 53 - 1)) = 1 / 2 ^ 44"
    using pow2_int(2) [of 44] by simp
  have le: "(- 1022 :: int) \<le> 8" by simp
  have rd: "double_round s = of_int (round_even (s * 2 ^ 44)) / 2 ^ 44"
    unfolding double_round_def ieee_round_binade [OF lo hi le, of 53] u by simp
  from assms(2) have "s * 2 ^ 44 \<le> of_int (360 * 2 ^ 44)" by simp
  then have "round_even (s * 2 ^ 44) \<le> 360 * 2 ^ 44" by (rule round_even_le)
  then have "real_of_int (round_even (s * 2 ^ 44)) \<le> of_int (360 * 2 ^ 44)"
    by (simp only: of_int_le_iff)
  then have up: "double_round s \<le> 360" unfolding rd by (simp add: field_simps)
  from assms(1) have "of_int 0 \<le> s * 2 ^ 44" by simp
  then have "0 \<le> round_even (s * 2 ^ 44)" by (rule round_even_ge)
  then have "0 \<le> double_round s" unfolding rd by simp
  with up show ?thesis by simp
qed

lemma pow2_neg: "(2 :: real) powr - real n = 1 / 2 ^ n"
  by (simp add: powr_minus powr_realpow divide_inverse)

lemma double_round_neg_range:
  assumes "1 / 2 ^ n \<le> - x" and "- x \<le> 1 / 2 ^ m" and "n \<le> 1022"
  shows "1 / 2 ^ n \<le> - double_round x \<and> - double_round x \<le> 1 / 2 ^ m"
proof -
  have le: "- 1022 \<le> - int n" using assms(3) by simp
  have "2 powr of_int (- int n) \<le> - x" "- x \<le> 2 powr of_int (- int m)"
    using assms(1,2) by (simp_all only: pow2_int)
  from ieee_round_range [OF this le, of 53]
  show ?thesis
    by (simp add: double_round_def ieee_round_minus pow2_neg)
qed

lemma float_round_pow2:
  assumes "n \<le> 126"
  shows "float_round (1 / 2 ^ n) = 1 / 2 ^ n"
proof -
  have le: "- 126 \<le> - int n" using assms by simp
  have "2 powr of_int (- int n) \<le> (1 :: real) / 2 ^ n" "(1 :: real) / 2 ^ n \<le> 2 powr of_int (- int n)"
    by (simp_all only: pow2_int)
  from ieee_round_range [OF this le, of 24]
  show ?thesis
    by (simp add: float_round_def pow2_neg)
qed

lemma double_round_near_360:
  assumes "\<bar>w\<bar> < 1 / 2 ^ 45"
  shows "double_round (w + 360) = 360"
proof -
  from assms have w: "- (1 / 2 ^ 45) < w" "w < 1 / 2 ^ 45" by (simp_all add: abs_if split: if_splits)
  have "(1 :: real) / 2 ^ 45 < 1" by simp
  with w have s: "256 \<le> w + 360" "w + 360 < 512" by linarith+
  then have lo: "2 powr of_int 8 \<le> \<bar>w + 360\<bar>" and hi: "\<bar>w + 360\<bar> < 2 powr (of_int 8 + 1)"
    using pow2_int(1) [of 8] pow2_int(1) [of 9] by simp_all
  have u: "(2 :: real) powr of_int (8 - (int 53 - 1)) = 1 / 2 ^ 44"
    using pow2_int(2) [of 44] by simp
  have le: "(- 1022 :: int) \<le> 8" by simp
  have rd: "double_round (w + 360) = of_int (round_even ((w + 360) * 2 ^ 44)) / 2 ^ 44"
    unfolding double_round_def ieee_round_binade [OF lo hi le, of 53] u by simp
  have "(w + 360) * 2 ^ 44 - of_int (360 * 2 ^ 44) = w * 2 ^ 44" by (simp add: algebra_simps)
  moreover have "\<bar>w * 2 ^ 44\<bar> < 1 / 2"
    using assms by (simp add: abs_mult)
  ultimately have "\<bar>(w + 360) * 2 ^ 44 - of_int (360 * 2 ^ 44)\<bar> < 1 / 2" by simp
  then have "round_even ((w + 360) * 2 ^ 44) = 360 * 2 ^ 44" by (rule round_even_near)
  then show ?thesis unfolding rd by simp
qed


lemma float_round_0 [simp]: "float_round 0 = 0"
  by (simp add: float_round_def ieee_round_def)

lemma double_round_0 [simp]: "double_round 0 = 0"
  by (simp add: double_round_def ieee_round_def)




subsection \<open>Angles\<close>

lemma atan2_bounds: "- pi < atan2 y x \<and> atan2 y x \<le> pi"
proof -
  have b: "- (pi / 2) < arctan (y / x)" "arctan (y / x) < pi / 2"
    by (rule arctan_lbound, rule arctan_ubound)
  have pos: "0 < pi" by (rule pi_gt_zero)
  show ?thesis
  proof (cases "0 < x")
    case True
    then have "atan2 y x = arctan (y / x)" by (simp add: atan2_def)
    with b pos show ?thesis by linarith
  next
    case nx: False
    show ?thesis
    proof (cases "x < 0")
      case xneg: True
      show ?thesis
      proof (cases "0 \<le> y")
        case True
        with xneg have "y / x \<le> 0" by (simp add: divide_nonneg_neg)
        then have le: "arctan (y / x) \<le> 0" using arctan_le_zero_iff by blast
        from xneg True have "atan2 y x = arctan (y / x) + pi" by (simp add: atan2_def)
        with b pos le show ?thesis by linarith
      next
        case False
        with xneg have "0 < y / x" by (simp add: divide_neg_neg)
        then have gt: "0 < arctan (y / x)" using zero_less_arctan_iff by blast
        from xneg False have "atan2 y x = arctan (y / x) - pi" by (simp add: atan2_def)
        with b pos gt show ?thesis by linarith
      qed
    next
      case False
      with nx have "atan2 y x = pi / 2 \<or> atan2 y x = - (pi / 2) \<or> atan2 y x = 0"
        by (simp add: atan2_def)
      with pos show ?thesis by linarith
    qed
  qed
qed

lemma arctan_le_self:
  assumes "0 \<le> x"
  shows "arctan x \<le> x"
proof -
  have "(\<lambda>t. t - arctan t) 0 \<le> (\<lambda>t. t - arctan t) x"
  proof (rule DERIV_nonneg_imp_nondecreasing [OF assms])
    fix t :: real
    have "((\<lambda>t. t - arctan t) has_real_derivative (1 - inverse (1 + t\<^sup>2))) (at t)"
      by (intro derivative_eq_intros DERIV_arctan | simp)+
    moreover have "inverse (1 + t\<^sup>2) \<le> 1"
      by (simp add: inverse_le_1_iff)
    ultimately show "\<exists>y. ((\<lambda>t. t - arctan t) has_real_derivative y) (at t) \<and> 0 \<le> y"
      by (intro exI [of _ "1 - inverse (1 + t\<^sup>2)"]) simp
  qed
  then show ?thesis by simp
qed

lemma arctan_ge_half:
  assumes "0 \<le> x" and "x \<le> 1"
  shows "x / 2 \<le> arctan x"
proof -
  have "(\<lambda>t. arctan t - (1 / 2) * t) 0 \<le> (\<lambda>t. arctan t - (1 / 2) * t) x"
  proof (rule DERIV_nonneg_imp_nondecreasing [OF assms(1)])
    fix t :: real
    assume t: "0 \<le> t" "t \<le> x"
    have d: "((\<lambda>t. arctan t - (1 / 2) * t) has_real_derivative (inverse (1 + t\<^sup>2) - 1 / 2)) (at t)"
      by (auto intro!: derivative_eq_intros)
    from t assms(2) have "t\<^sup>2 \<le> 1" by (simp add: power_le_one)
    then have "1 + t\<^sup>2 \<le> 2" by simp
    then have "inverse 2 \<le> inverse (1 + t\<^sup>2)"
      by (intro le_imp_inverse_le) (simp_all add: add_pos_nonneg)
    then have "0 \<le> inverse (1 + t\<^sup>2) - 1 / 2" by simp
    with d show "\<exists>y. ((\<lambda>t. arctan t - (1 / 2) * t) has_real_derivative y) (at t) \<and> 0 \<le> y"
      by (intro exI [of _ "inverse (1 + t\<^sup>2) - 1 / 2"]) simp
  qed
  then show ?thesis by simp
qed

lemma angle_double_range:
  "0 \<le> angleOfLineWrtOxAxis_double a b \<and> angleOfLineWrtOxAxis_double a b \<le> 360"
proof -
  define t where "t = double_round (atan2 (float_round (py b - py a)) (float_round (px b - px a)))"
  define v where "v = double_round (t * 180)"
  define angle where "angle = double_round (v / CV_PI)"
  have unfold: "angleOfLineWrtOxAxis_double a b =
      (if angle < 0 then double_round (angle + 360) else angle)"
    by (simp add: angleOfLineWrtOxAxis_double_def Let_def angle_def v_def t_def)
  have "\<bar>atan2 (float_round (py b - py a)) (float_round (px b - px a))\<bar> \<le> pi"
    using atan2_bounds [of "float_round (py b - py a)" "float_round (px b - px a)"]
    by (simp add: abs_if)
  then have "\<bar>atan2 (float_round (py b - py a)) (float_round (px b - px a))\<bar> \<le> 4"
    using pi_less_4 by linarith
  with double_round_crude [of "atan2 (float_round (py b - py a)) (float_round (px b - px a))"]
  have t: "\<bar>t\<bar> \<le> 5" by (simp add: t_def)
  then have "\<bar>t * 180\<bar> \<le> 900" by (simp add: abs_mult)
  with double_round_crude [of "t * 180"] have v: "\<bar>v\<bar> \<le> 902" by (simp add: v_def)
  have pi3: "3 \<le> CV_PI" by (simp add: CV_PI_def)
  have "\<bar>v / CV_PI\<bar> = \<bar>v\<bar> / CV_PI" using pi3 by simp
  also have "\<dots> \<le> \<bar>v\<bar> / 3" using pi3 by (intro divide_left_mono) simp_all
  finally have "\<bar>v / CV_PI\<bar> \<le> \<bar>v\<bar> / 3" .
  with v have "\<bar>v / CV_PI\<bar> \<le> 301" by linarith
  with double_round_crude [of "v / CV_PI"] have angle: "\<bar>angle\<bar> \<le> 303" by (simp add: angle_def)
  show ?thesis
  proof (cases "angle < 0")
    case True
    with angle have "1 \<le> angle + 360" "angle + 360 < 360" by (simp_all add: abs_if split: if_splits)
    from double_round_below_360 [OF this] True show ?thesis by (simp add: unfold)
  next
    case False
    with angle show ?thesis by (simp add: unfold abs_if split: if_splits)
  qed
qed

lemma angle_double_360:
  "angleOfLineWrtOxAxis_double (Point 0 0) (Point 1 (- (1 / 2 ^ 70))) = 360"
proof -
  have y: "float_round (- (1 / 2 ^ 70)) = - (1 / 2 ^ 70)"
    using float_round_pow2 [of 70] by (simp add: float_round_def ieee_round_minus)
  have x: "float_round 1 = 1"
    using float_round_pow2 [of 0] by simp
  have at: "atan2 (- (1 / 2 ^ 70)) 1 = - arctan (1 / 2 ^ 70)"
    by (simp add: atan2_def arctan_minus)
  define t where "t = double_round (- arctan (1 / 2 ^ 70))"
  define v where "v = double_round (t * 180)"
  define w where "w = double_round (v / CV_PI)"
  have "(1 / 2 ^ 70) / 2 \<le> arctan (1 / 2 ^ 70 :: real)"
    by (rule arctan_ge_half) simp_all
  moreover have "arctan (1 / 2 ^ 70 :: real) \<le> 1 / 2 ^ 70"
    by (rule arctan_le_self) simp
  ultimately have "1 / 2 ^ 71 \<le> - (- arctan (1 / 2 ^ 70 :: real))"
    "- (- arctan (1 / 2 ^ 70 :: real)) \<le> 1 / 2 ^ 70" by simp_all
  from double_round_neg_range [OF this]
  have t: "1 / 2 ^ 71 \<le> - t" "- t \<le> 1 / 2 ^ 70" by (simp_all add: t_def)
  then have "1 / 2 ^ 64 \<le> - (t * 180)" "- (t * 180) \<le> 1 / 2 ^ 62" by simp_all
  from double_round_neg_range [OF this]
  have v: "1 / 2 ^ 64 \<le> - v" "- v \<le> 1 / 2 ^ 62" by (simp_all add: v_def)
  have pi: "3 \<le> CV_PI" "CV_PI \<le> 4" by (simp_all add: CV_PI_def)
  have neg_v: "0 \<le> - v" using v(1) by (simp add: order_trans [of 0 "1 / 2 ^ 64"])
  have q: "- (v / CV_PI) = (- v) / CV_PI" by simp
  have a: "(- v) / 4 \<le> (- v) / CV_PI" using pi neg_v by (intro divide_left_mono) simp_all
  have b: "(- v) / CV_PI \<le> (- v) / 3" using pi neg_v by (intro divide_left_mono) simp_all
  have "(1 :: real) / 2 ^ 66 = (1 / 2 ^ 64) / 4" by simp
  also have "\<dots> \<le> (- v) / 4" using v(1) by (intro divide_right_mono) simp_all
  finally have c: "1 / 2 ^ 66 \<le> (- v) / 4" .
  have "(- v) / 3 \<le> (1 / 2 ^ 62) / 3" using v(2) by (intro divide_right_mono) simp_all
  also have "\<dots> \<le> (1 :: real) / 2 ^ 63" by simp
  finally have d: "(- v) / 3 \<le> 1 / 2 ^ 63" .
  from a b c d have "1 / 2 ^ 66 \<le> - (v / CV_PI)" "- (v / CV_PI) \<le> 1 / 2 ^ 63"
    unfolding q by linarith+
  from double_round_neg_range [OF this]
  have w: "1 / 2 ^ 66 \<le> - w" "- w \<le> 1 / 2 ^ 63" by (simp_all add: w_def)
  then have neg: "w < 0" by (simp add: less_le_trans [of 0 "1 / 2 ^ 66"])
  have "(1 :: real) / 2 ^ 63 < 1 / 2 ^ 45" by simp
  with w have "\<bar>w\<bar> < 1 / 2 ^ 45" by (simp add: abs_if split: if_splits)
  then have "double_round (w + 360) = 360" by (rule double_round_near_360)
  moreover have sel: "py (Point 1 (- (1 / 2 ^ 70))) - py (Point 0 0) = - (1 / 2 ^ 70)"
    "px (Point 1 (- (1 / 2 ^ 70))) - px (Point 0 0) = 1"
    by (simp_all add: Point_def)
  have "angleOfLineWrtOxAxis_double (Point 0 0) (Point 1 (- (1 / 2 ^ 70))) =
          (if w < 0 then double_round (w + 360) else w)"
    unfolding angleOfLineWrtOxAxis_double_def Let_def sel y x at w_def v_def t_def ..
  ultimately show ?thesis using neg by simp
qed

text \<open>
  Claim C7, as amended. \<open>oppositeAngle\<close> subtracts 180 above 180 and adds 180 otherwise,
  so that 180 is sent to 360. The angles of \<open>angleOfLineWrtOxAxis\<close> lie in the closed
  range from 0 to 360: 360 itself is not excluded.
\<close>

theorem oppositeAngle_asymmetric:
  "oppositeAngle \<theta> = (if \<theta> > 180 then \<theta> - 180 else \<theta> + 180) \<and>
   oppositeAngle 180 = 360 \<and>
   (\<bar>px b - px a\<bar> \<le> FLT_MAX \<and> \<bar>py b - py a\<bar> \<le> FLT_MAX \<longrightarrow>
      0 \<le> angleOfLineWrtOxAxis_double a b \<and> angleOfLineWrtOxAxis_double a b \<le> 360)"
  using angle_double_range [of a b] by (simp add: oppositeAngle_def)

theorem oppositeAngle_asymmetric_witness:
  "\<bar>px (Point 1 1) - px (Point 0 0)\<bar> \<le> FLT_MAX \<and>
   \<bar>py (Point 1 1) - py (Point 0 0)\<bar> \<le> FLT_MAX \<and>
   0 \<le> angleOfLineWrtOxAxis_double (Point 0 0) (Point 1 1) \<and>
   angleOfLineWrtOxAxis_double (Point 0 0) (Point 1 1) \<le> 360 \<and>
   oppositeAngle 270 = 90 \<and> oppositeAngle 90 = 270"
  using oppositeAngle_asymmetric [where \<theta> = 270 and a = "Point 0 0" and b = "Point 1 1"]
    oppositeAngle_asymmetric [where \<theta> = 90 and a = "Point 0 0" and b = "Point 1 1"]
  by (simp add: Point_def FLT_MAX_def)

text \<open>
  Claim C7 as stated fails: the angle of the line from \<open>(0, 0)\<close> to \<open>(1, -2\<^sup>-\<^sup>7\<^sup>0)\<close>
  is 360. Before the normalisation the angle is negative and below \<open>2\<^sup>-\<^sup>6\<^sup>3\<close> in
  magnitude, and the sum of such a number and 360 is rounded to 360.
\<close>

theorem angleOfLineWrtOxAxis_counterexample:
  "angleOfLineWrtOxAxis_double (Point 0 0) (Point 1 (- (1 / 2 ^ 70))) = 360 \<and>
   \<not> angleOfLineWrtOxAxis_double (Point 0 0) (Point 1 (- (1 / 2 ^ 70))) < 360"
  using angle_double_360 by simp





subsection \<open>Validation of a candidate\<close>

text \<open>
  Claim C4. \<open>isValidMinimalTriangle\<close> accepts exactly when the three midpoint tests
  hold: the midpoint of side A equals \<open>P[a-1]\<close> within the threshold for a tangent side A
  and lies on the segment of side A otherwise; the midpoint of side B equals \<open>P[b]\<close>
  for a tangent side B and lies on the segment of side B otherwise; the midpoint of side C
  lies on the segment of side C unless the sides are flush, where nothing is tested.
\<close>

theorem isValidMinimalTriangle_iff:
  "isValidMinimalTriangle vertexA vertexB vertexC polygon nrOfPoints a b validationFlag
       sideAStartVertex sideAEndVertex sideBStartVertex sideBEndVertex
       sideCStartVertex sideCEndVertex \<longleftrightarrow>
     (if validationFlag = VALIDATION_SIDE_A_TANGENT
      then areEqualPoints (middlePoint vertexB vertexC)
             (nth_point polygon (predecessor a nrOfPoints))
      else isPointOnLineSegment (middlePoint vertexB vertexC) sideAStartVertex sideAEndVertex) \<and>
     (if validationFlag = VALIDATION_SIDE_B_TANGENT
      then areEqualPoints (middlePoint vertexA vertexC) (nth_point polygon b)
      else isPointOnLineSegment (middlePoint vertexA vertexC) sideBStartVertex sideBEndVertex) \<and>
     (if validationFlag = VALIDATION_SIDES_FLUSH then True
      else isPointOnLineSegment (middlePoint vertexA vertexB) sideCStartVertex sideCEndVertex)"
  by (simp add: isValidMinimalTriangle_def Let_def)

subsection \<open>Polygons of at most three points\<close>

lemma small_polygon_cases:
  assumes "1 \<le> length polygon" and "length polygon \<le> 3"
  shows "length polygon = 1 \<or> length polygon = 2 \<or> length polygon = 3"
  using assms by arith

lemma returnMinimumAreaEnclosingTriangle_cyclic:
  assumes "1 \<le> length polygon" and "length polygon \<le> 3"
  shows "fst (returnMinimumAreaEnclosingTriangle polygon initialise) =
           [polygon ! (0 mod length polygon), polygon ! (1 mod length polygon),
            polygon ! (2 mod length polygon)]"
  using small_polygon_cases [OF assms]
  by (auto simp add: returnMinimumAreaEnclosingTriangle_def initialise_def nth_point_def Let_def)

lemma small_polygon_result:
  assumes "1 \<le> length polygon" and "length polygon \<le> 3"
  shows "findMinEnclosingTriangle polygon =
           Some (Inr ([polygon ! (0 mod length polygon), polygon ! (1 mod length polygon),
                       polygon ! (2 mod length polygon)],
                      areaOfTriangle (polygon ! (0 mod length polygon))
                        (polygon ! (1 mod length polygon)) (polygon ! (2 mod length polygon))))"
proof -
  have "snd (returnMinimumAreaEnclosingTriangle polygon initialise) =
          areaOfTriangle (fst (returnMinimumAreaEnclosingTriangle polygon initialise) ! 0)
            (fst (returnMinimumAreaEnclosingTriangle polygon initialise) ! 1)
            (fst (returnMinimumAreaEnclosingTriangle polygon initialise) ! 2)"
    by (simp add: returnMinimumAreaEnclosingTriangle_def Let_def)
  then have "returnMinimumAreaEnclosingTriangle polygon initialise =
     ([polygon ! (0 mod length polygon), polygon ! (1 mod length polygon),
                       polygon ! (2 mod length polygon)],
                      areaOfTriangle (polygon ! (0 mod length polygon))
                        (polygon ! (1 mod length polygon)) (polygon ! (2 mod length polygon)))"
    by (simp add: returnMinimumAreaEnclosingTriangle_cyclic [OF assms] prod_eq_iff)
  with assms(2) show ?thesis
    by (simp add: findMinEnclosingTriangle_def)
qed

text \<open>
  Claim C6. A polygon of one to three points bypasses the sweep: the triangle is the
  polygon repeated cyclically and the area is \<open>areaOfTriangle\<close> of these three points.
  The witness is the single point \<open>(5, 5)\<close>: three copies and the area 0.
\<close>

theorem small_polygon_bypass:
  assumes "1 \<le> length polygon" and "length polygon \<le> 3"
  shows "findMinEnclosingTriangle polygon =
           Some (Inr ([polygon ! (0 mod length polygon), polygon ! (1 mod length polygon),
                       polygon ! (2 mod length polygon)],
                      areaOfTriangle (polygon ! (0 mod length polygon))
                        (polygon ! (1 mod length polygon)) (polygon ! (2 mod length polygon))))"
  using assms by (rule small_polygon_result)

theorem small_polygon_bypass_witness:
  "(1 :: nat) \<le> length [Point 5 5] \<and> length [Point 5 5] \<le> (3 :: nat) \<and>
   findMinEnclosingTriangle [Point 5 5] = Some (Inr ([Point 5 5, Point 5 5, Point 5 5], 0))"
  using small_polygon_bypass [of "[Point 5 5]"]
  by (simp add: areaOfTriangle_def Point_def)

subsection \<open>Evaluation on concrete polygons\<close>

text \<open>
  The facts that let the simplifier run the embedding on a concrete polygon: the
  definitions to unfold, and the angle of a line in one of the eight principal directions.
\<close>

lemmas geom_defs = height_def height_point_def distanceFromPointToLine_def predecessor_def
  successor_def advance_def
  nth_point_def Point_def Let_def almostEqual_def greaterOrEqual_def lessOrEqual_def maximum_def EPSILON_def
  areEqualPoints_def lineEquationParameters_def lineEquationDeterminedByPoints_def
  lineIntersection_coef_def lineIntersection_def areIntersectingLines_def areIdenticalLines_def
  areIdenticalLines_coef_def areOnTheSameSideOfLine_def sign_def

lemma deg_quarter: "pi / 4 * 180 / pi = 45" "pi / 2 * 180 / pi = 90" "pi * 180 / pi = 180"
  by simp_all

lemma atan2_axis:
  "0 < d \<Longrightarrow> atan2 0 d = 0"
  "0 < d \<Longrightarrow> atan2 d 0 = pi / 2"
  "0 < d \<Longrightarrow> atan2 0 (- d) = pi"
  "0 < d \<Longrightarrow> atan2 (- d) 0 = - (pi / 2)"
  by (simp_all add: atan2_def)

lemma atan2_diagonal:
  "0 < d \<Longrightarrow> atan2 d d = pi / 4"
  "0 < d \<Longrightarrow> atan2 d (- d) = 3 * pi / 4"
  "0 < d \<Longrightarrow> atan2 (- d) (- d) = - (3 * pi / 4)"
  "0 < d \<Longrightarrow> atan2 (- d) d = - (pi / 4)"
  by (simp_all add: atan2_def arctan_one arctan_minus)

lemma angle_directions:
  "0 < d \<Longrightarrow> px b - px a = d \<Longrightarrow> py b - py a = 0 \<Longrightarrow> angleOfLineWrtOxAxis a b = 0"
  "0 < d \<Longrightarrow> px b - px a = d \<Longrightarrow> py b - py a = d \<Longrightarrow> angleOfLineWrtOxAxis a b = 45"
  "0 < d \<Longrightarrow> px b - px a = 0 \<Longrightarrow> py b - py a = d \<Longrightarrow> angleOfLineWrtOxAxis a b = 90"
  "0 < d \<Longrightarrow> px b - px a = - d \<Longrightarrow> py b - py a = d \<Longrightarrow> angleOfLineWrtOxAxis a b = 135"
  "0 < d \<Longrightarrow> px b - px a = - d \<Longrightarrow> py b - py a = 0 \<Longrightarrow> angleOfLineWrtOxAxis a b = 180"
  "0 < d \<Longrightarrow> px b - px a = - d \<Longrightarrow> py b - py a = - d \<Longrightarrow> angleOfLineWrtOxAxis a b = 225"
  "0 < d \<Longrightarrow> px b - px a = 0 \<Longrightarrow> py b - py a = - d \<Longrightarrow> angleOfLineWrtOxAxis a b = 270"
  "0 < d \<Longrightarrow> px b - px a = d \<Longrightarrow> py b - py a = - d \<Longrightarrow> angleOfLineWrtOxAxis a b = 315"
  using pi_gt_zero
  by (simp_all add: angleOfLineWrtOxAxis_def Let_def atan2_axis atan2_diagonal)

lemma angle_principal:
  "angleOfLineWrtOxAxis a b =
     (let y = py b - py a; x = px b - px a
      in if y = 0 \<and> 0 < x then 0
         else if y = x \<and> 0 < x then 45
         else if x = 0 \<and> 0 < y then 90
         else if y = - x \<and> x < 0 then 135
         else if y = 0 \<and> x < 0 then 180
         else if y = x \<and> x < 0 then 225
         else if x = 0 \<and> y < 0 then 270
         else if y = - x \<and> 0 < x then 315
         else if atan2 y x * 180 / pi < 0 then atan2 y x * 180 / pi + 360
         else atan2 y x * 180 / pi)"
proof -
  define y where "y = py b - py a"
  define x where "x = px b - px a"
  have xy: "px b - px a = x" "py b - py a = y" by (simp_all add: x_def y_def)
  consider
      (E) "y = 0 \<and> 0 < x" | (NE) "y = x \<and> 0 < x" | (N) "x = 0 \<and> 0 < y"
    | (NW) "y = - x \<and> x < 0" | (W) "y = 0 \<and> x < 0" | (SW) "y = x \<and> x < 0"
    | (S) "x = 0 \<and> y < 0" | (SE) "y = - x \<and> 0 < x"
    | (other) "\<not> (y = 0 \<and> 0 < x)" "\<not> (y = x \<and> 0 < x)" "\<not> (x = 0 \<and> 0 < y)"
        "\<not> (y = - x \<and> x < 0)" "\<not> (y = 0 \<and> x < 0)" "\<not> (y = x \<and> x < 0)"
        "\<not> (x = 0 \<and> y < 0)" "\<not> (y = - x \<and> 0 < x)"
    by blast
  then show ?thesis
  proof cases
    case E
    then show ?thesis using angle_directions(1) [of x b a] xy by (simp add: Let_def)
  next
    case NE
    then show ?thesis using angle_directions(2) [of x b a] xy by (simp add: Let_def)
  next
    case N
    then show ?thesis using angle_directions(3) [of y b a] xy by (simp add: Let_def)
  next
    case NW
    then show ?thesis using angle_directions(4) [of y b a] xy by (simp add: Let_def)
  next
    case W
    then show ?thesis using angle_directions(5) [of "- x" b a] xy by (simp add: Let_def)
  next
    case SW
    then show ?thesis using angle_directions(6) [of "- x" b a] xy by (simp add: Let_def)
  next
    case S
    then show ?thesis using angle_directions(7) [of "- y" b a] xy by (simp add: Let_def)
  next
    case SE
    then show ?thesis using angle_directions(8) [of x b a] xy by (simp add: Let_def)
  next
    case other
    then show ?thesis unfolding Let_def xy
      by (simp only: if_False) (simp add: angleOfLineWrtOxAxis_def Let_def xy)
  qed
qed

lemmas angle_defs = angle_principal oppositeAngle_def isAngleBetween_def isAngleBetweenNonReflex_def
  isOppositeAngleBetweenNonReflex_def isFlushAngleBtwPredAndSucc_def isGammaAngleEqualTo_def
  isGammaAngleBtw_def int_cast_def int_rem_def

lemmas sweep_defs = sweepBody_def candidateTriangle_def sweepSides_def updateSidesCA_def
  isNotBTangency_def
  updateSidesBA_def updateSideB_def middlePointOfSideB_def isLocalMinimalTriangle_def
  isValidMinimalTriangle_def updateMinimumAreaEnclosingTriangle_def middlePoint_def
  isPointOnLineSegment_def distanceBtwPoints_def areaOfTriangle_def findVertexCOnSideB_def
  gamma_def findGammaIntersectionPoints_def intersectsBelow_def intersectsAbove_def
  intersects_def intersectsAboveOrBelow_def
























subsection \<open>The sweep on the wide trapezoid\<close>

lemma wt_length: "length wideTrapezoid = 4"
  by (simp add: wideTrapezoid_def)

lemma wt_S1_0: "advanceBToRightChain wideTrapezoid 4 2 0 = Some 2"
  by (simp add: advanceBToRightChain.simps wideTrapezoid_def geom_defs)

lemma wt_S2_0: "moveAIfLowAndBIfHigh wideTrapezoid 4 1 2 0 = Some (Inr (1, 2))"
  by (simp add: moveAIfLowAndBIfHigh.simps wideTrapezoid_def geom_defs)

lemma wt_gamma: "gamma 2 wideTrapezoid 4 1 0 = Inl AssertionFailed"
  by (simp add: gamma_def findGammaIntersectionPoints_def wideTrapezoid_def geom_defs)

lemma wt_S3_0: "searchForBTangency wideTrapezoid 4 1 2 0 = Some (Inl AssertionFailed)"
  by (simp add: searchForBTangency.simps wt_gamma)

lemma wt_body_0: "sweepBody wideTrapezoid 4 0 (1, 2, initialise) = Some (Inl AssertionFailed)"
  by (simp add: sweepBody_def wt_S1_0 wt_S2_0 wt_S3_0)

lemma wt_sweep:
  "findMinimumAreaEnclosingTriangle wideTrapezoid initialise = Some (Inl AssertionFailed)"
  by (simp add: findMinimumAreaEnclosingTriangle_def sweepLoop.simps wt_body_0 wt_length)


subsection \<open>The best triangle along the sweep\<close>

lemma update_cases:
  "updateMinimumAreaEnclosingTriangle best vertexA vertexB vertexC =
     (if areaOfTriangle vertexA vertexB vertexC < snd best
      then ([vertexA, vertexB, vertexC], areaOfTriangle vertexA vertexB vertexC)
      else best)"
  by (simp add: updateMinimumAreaEnclosingTriangle_def Let_def)

lemma sweepSides_sideC:
  assumes "sweepSides polygon nrOfPoints a b c =
             Inr (validationFlag, sideAStartVertex, sideAEndVertex, sideBStartVertex,
                  sideBEndVertex, sideCStartVertex, sideCEndVertex)"
  shows "sideCStartVertex = nth_point polygon (predecessor c nrOfPoints) \<and>
         sideCEndVertex = nth_point polygon c"
  using assms
  unfolding sweepSides_def updateSidesCA_def Let_def
  by (auto split: sum.splits prod.splits if_splits)

lemma candidateTriangle_cases:
  assumes "candidateTriangle polygon nrOfPoints a b c best = Inr best'"
  shows "best' = best \<or>
         (\<exists>validationFlag sideAStartVertex sideAEndVertex sideBStartVertex sideBEndVertex
             vertexA vertexB vertexC.
            isLocalMinimalTriangle polygon nrOfPoints a b validationFlag
              sideAStartVertex sideAEndVertex sideBStartVertex sideBEndVertex
              (nth_point polygon (predecessor c nrOfPoints)) (nth_point polygon c)
              = Some (vertexA, vertexB, vertexC) \<and>
            areaOfTriangle vertexA vertexB vertexC < snd best \<and>
            best' = ([vertexA, vertexB, vertexC], areaOfTriangle vertexA vertexB vertexC))"
proof (cases "sweepSides polygon nrOfPoints a b c")
  case (Inl e)
  with assms show ?thesis by (simp add: candidateTriangle_def)
next
  case (Inr sides)
  obtain validationFlag sideAStartVertex sideAEndVertex sideBStartVertex sideBEndVertex
      sideCStartVertex sideCEndVertex
    where sides: "sides = (validationFlag, sideAStartVertex, sideAEndVertex, sideBStartVertex,
                  sideBEndVertex, sideCStartVertex, sideCEndVertex)"
    by (cases sides) auto
  from Inr sides have sideC:
    "sideCStartVertex = nth_point polygon (predecessor c nrOfPoints)"
    "sideCEndVertex = nth_point polygon c"
    using sweepSides_sideC by auto
  show ?thesis
  proof (cases "isLocalMinimalTriangle polygon nrOfPoints a b validationFlag
                  sideAStartVertex sideAEndVertex sideBStartVertex sideBEndVertex
                  sideCStartVertex sideCEndVertex")
    case None
    with assms Inr sides show ?thesis by (simp add: candidateTriangle_def)
  next
    case (Some vertices)
    obtain vertexA vertexB vertexC where v: "vertices = (vertexA, vertexB, vertexC)"
      by (cases vertices) auto
    from assms Inr sides Some v
    have "best' = updateMinimumAreaEnclosingTriangle best vertexA vertexB vertexC"
      by (simp add: candidateTriangle_def)
    with Some v sideC show ?thesis
      unfolding update_cases by (cases "areaOfTriangle vertexA vertexB vertexC < snd best") auto
  qed
qed


lemma sweepBody_candidate:
  assumes "sweepBody polygon nrOfPoints c (a, b, best) = Some (Inr (a', b', best'))"
  shows "candidateTriangle polygon nrOfPoints a' b' c best = Inr best'"
proof -
  obtain b1 where s1: "advanceBToRightChain polygon nrOfPoints b c = Some b1"
    using assms by (cases "advanceBToRightChain polygon nrOfPoints b c") (simp_all add: sweepBody_def)
  obtain a2 b2 where s2: "moveAIfLowAndBIfHigh polygon nrOfPoints a b1 c = Some (Inr (a2, b2))"
    using assms s1
    by (cases "moveAIfLowAndBIfHigh polygon nrOfPoints a b1 c")
       (auto simp add: sweepBody_def split: sum.splits)
  obtain b3 where s3: "searchForBTangency polygon nrOfPoints a2 b2 c = Some (Inr b3)"
    using assms s1 s2
    by (cases "searchForBTangency polygon nrOfPoints a2 b2 c")
       (auto simp add: sweepBody_def split: sum.splits)
  show ?thesis
    using assms s1 s2 s3
    by (cases "candidateTriangle polygon nrOfPoints a2 b3 c best") (simp_all add: sweepBody_def)
qed


lemma sweepLoop_invariant:
  assumes "sweepLoop polygon nrOfPoints c st = Some (Inr st')"
    and "I (snd (snd st))"
    and "\<forall>a b c best best'. I best \<and>
      candidateTriangle polygon nrOfPoints a b c best = Inr best' \<longrightarrow> I best'"
  shows "I (snd (snd st'))"
  using assms
proof (induction polygon nrOfPoints c st rule: sweepLoop.induct)
  case (1 polygon nrOfPoints c st)
  have unfold: "sweepLoop polygon nrOfPoints c st =
     (if c < nrOfPoints then
        (case sweepBody polygon nrOfPoints c st of
           None \<Rightarrow> None
         | Some (Inl e) \<Rightarrow> Some (Inl e)
         | Some (Inr st1) \<Rightarrow> sweepLoop polygon nrOfPoints (c + 1) st1)
      else Some (Inr st))"
    by (rule sweepLoop.simps)
  show ?case
  proof (cases "c < nrOfPoints")
    case False
    with "1.prems"(1) unfold have "st' = st" by simp
    with "1.prems"(2) show ?thesis by simp
  next
    case True
    with "1.prems"(1) unfold have run:
      "(case sweepBody polygon nrOfPoints c st of
           None \<Rightarrow> None
         | Some (Inl e) \<Rightarrow> Some (Inl e)
         | Some (Inr st1) \<Rightarrow> sweepLoop polygon nrOfPoints (c + 1) st1) = Some (Inr st')"
      by simp
    then obtain st1 where
      body: "sweepBody polygon nrOfPoints c st = Some (Inr st1)" and
      rest: "sweepLoop polygon nrOfPoints (c + 1) st1 = Some (Inr st')"
      by (cases "sweepBody polygon nrOfPoints c st") (auto split: sum.splits)
    obtain a b best where st: "st = (a, b, best)" by (cases st) auto
    obtain a1 b1 best1 where st1: "st1 = (a1, b1, best1)" by (cases st1) auto
    from body st st1 have "candidateTriangle polygon nrOfPoints a1 b1 c best = Inr best1"
      using sweepBody_candidate by simp
    moreover from "1.prems"(2) st have "I best" by simp
    ultimately have "I best1" using "1.prems"(3) by blast
    with st1 have "I (snd (snd st1))" by simp
    from "1.IH" [OF True body refl rest this "1.prems"(3)] show ?thesis .
  qed
qed

lemma findMinimumAreaEnclosingTriangle_invariant:
  assumes "findMinimumAreaEnclosingTriangle polygon best = Some (Inr best')"
    and "I best"
    and "\<forall>a b c best best'. I best \<and>
      candidateTriangle polygon (of_nat (length polygon)) a b c best = Inr best' \<longrightarrow> I best'"
  shows "I best'"
proof -
  define r where "r = sweepLoop polygon (of_nat (length polygon)) 0 (1, 2, best)"
  from assms(1) have "(case r of None \<Rightarrow> None | Some (Inl e) \<Rightarrow> Some (Inl e)
      | Some (Inr (a, b, best')) \<Rightarrow> Some (Inr best')) = Some (Inr best')"
    by (simp add: findMinimumAreaEnclosingTriangle_def Let_def r_def)
  then obtain a b where "r = Some (Inr (a, b, best'))"
    by (cases r) (auto split: sum.splits)
  then have "sweepLoop polygon (of_nat (length polygon)) 0 (1, 2, best) = Some (Inr (a, b, best'))"
    by (simp add: r_def)
  from sweepLoop_invariant [OF this, of I] assms(2,3) show ?thesis by simp
qed


lemma findMinimumAreaEnclosingTriangle_below_max:
  assumes "findMinimumAreaEnclosingTriangle polygon initialise = Some (Inr best')"
  shows "(fst best' = [] \<and> snd best' = DBL_MAX) \<or> (fst best' \<noteq> [] \<and> snd best' < DBL_MAX)"
proof -
  define I where
    "I = (\<lambda>x :: best. (fst x = [] \<and> snd x = DBL_MAX) \<or> (fst x \<noteq> [] \<and> snd x < DBL_MAX))"
  have "I initialise" by (simp add: I_def initialise_def)
  moreover have "\<forall>a b c x x'. I x \<and>
      candidateTriangle polygon (of_nat (length polygon)) a b c x = Inr x' \<longrightarrow> I x'"
  proof (intro allI impI)
    fix a b c and x x' :: best
    assume h: "I x \<and> candidateTriangle polygon (of_nat (length polygon)) a b c x = Inr x'"
    then have "snd x \<le> DBL_MAX" by (auto simp add: I_def)
    with candidateTriangle_cases [of polygon "of_nat (length polygon)" a b c x x'] h
    show "I x'" by (auto simp add: I_def)
  qed
  ultimately have "I best'"
    using findMinimumAreaEnclosingTriangle_invariant [OF assms(1), of I] by blast
  then show ?thesis by (simp add: I_def)
qed







subsection \<open>The result of \<open>findMinEnclosingTriangle\<close>\<close>
























subsection \<open>Exceptions of the sweep\<close>

lemma lineEquation_error:
  "lineEquationDeterminedByPoints p q = Inl e \<longleftrightarrow> e = AssertionFailed \<and> areEqualPoints p q"
  by (auto simp add: lineEquationDeterminedByPoints_def Let_def)

lemma areOnTheSameSideOfLine_error:
  "areOnTheSameSideOfLine p1 p2 p q = Inl e \<Longrightarrow> e = AssertionFailed"
  by (auto simp add: areOnTheSameSideOfLine_def Let_def lineEquation_error split: sum.splits)

lemma findGammaIntersectionPoints_error:
  "findGammaIntersectionPoints polygon nrOfPoints c i s1 e1 s2 e2 = Inl e \<Longrightarrow> e = AssertionFailed"
  by (auto simp add: findGammaIntersectionPoints_def lineEquationParameters_def Let_def
        lineEquation_error split: sum.splits option.splits if_splits)

lemma gamma_error:
  "gamma i polygon nrOfPoints a c = Inl e \<Longrightarrow> e = AssertionFailed"
  by (auto simp add: gamma_def split: sum.splits option.splits
        dest: findGammaIntersectionPoints_error areOnTheSameSideOfLine_error)

lemma updateSideB_gamma:
  "updateSideB polygon nrOfPoints a b c = Inl ERR_SIDE_B_GAMMA \<longleftrightarrow>
     gamma b polygon nrOfPoints a c = Inr None"
  by (auto simp add: updateSideB_def split: sum.splits option.splits dest: gamma_error)

lemma findVertexCOnSideB_gamma:
  "findVertexCOnSideB polygon nrOfPoints a c sideBStartVertex sideBEndVertex
       sideCStartVertex sideCEndVertex = Inl ERR_VERTEX_C_ON_SIDE_B \<longleftrightarrow>
     findGammaIntersectionPoints polygon nrOfPoints c (predecessor a nrOfPoints)
       sideBStartVertex sideBEndVertex sideCStartVertex sideCEndVertex = Inr None"
  by (auto simp add: findVertexCOnSideB_def split: sum.splits option.splits
        dest: findGammaIntersectionPoints_error areOnTheSameSideOfLine_error)

lemma isLocalMinimalTriangle_parallel:
  assumes "lineIntersection sideAStartVertex sideAEndVertex sideBStartVertex sideBEndVertex = None \<or>
     lineIntersection sideAStartVertex sideAEndVertex sideCStartVertex sideCEndVertex = None \<or>
     lineIntersection sideBStartVertex sideBEndVertex sideCStartVertex sideCEndVertex = None"
  shows "isLocalMinimalTriangle polygon nrOfPoints a b validationFlag
       sideAStartVertex sideAEndVertex sideBStartVertex sideBEndVertex
       sideCStartVertex sideCEndVertex = None"
  using assms by (auto simp add: isLocalMinimalTriangle_def split: option.splits)

lemma candidateTriangle_discards:
  assumes "sweepSides polygon nrOfPoints a b c =
             Inr (validationFlag, sideAStartVertex, sideAEndVertex, sideBStartVertex,
                  sideBEndVertex, sideCStartVertex, sideCEndVertex)"
    and "isLocalMinimalTriangle polygon nrOfPoints a b validationFlag
       sideAStartVertex sideAEndVertex sideBStartVertex sideBEndVertex
       sideCStartVertex sideCEndVertex = None"
  shows "candidateTriangle polygon nrOfPoints a b c best = Inr best"
  using assms by (simp add: candidateTriangle_def)

lemma isNotBTangency_error:
  "isNotBTangency polygon nrOfPoints a b c = Inl e \<Longrightarrow> e = AssertionFailed"
  by (auto simp add: isNotBTangency_def split: sum.splits option.splits dest: gamma_error)

lemma updateSideB_error:
  assumes "updateSideB polygon nrOfPoints a b c = Inl e"
  shows "e = AssertionFailed \<or>
         (e = ERR_SIDE_B_GAMMA \<and> gamma b polygon nrOfPoints a c = Inr None)"
  using assms
  by (auto simp add: updateSideB_def split: sum.splits option.splits dest: gamma_error)

lemma findVertexCOnSideB_error:
  assumes "findVertexCOnSideB polygon nrOfPoints a c sideBStartVertex sideBEndVertex
       sideCStartVertex sideCEndVertex = Inl e"
  shows "e = AssertionFailed \<or>
         (e = ERR_VERTEX_C_ON_SIDE_B \<and>
          findGammaIntersectionPoints polygon nrOfPoints c (predecessor a nrOfPoints)
            sideBStartVertex sideBEndVertex sideCStartVertex sideCEndVertex = Inr None)"
  using assms
  by (auto simp add: findVertexCOnSideB_def split: sum.splits option.splits
        dest: findGammaIntersectionPoints_error areOnTheSameSideOfLine_error)

lemma updateSidesBA_error:
  assumes "updateSidesBA polygon nrOfPoints a b c sideAStartVertex sideAEndVertex
       sideCStartVertex sideCEndVertex = Inl e"
  shows "e = AssertionFailed \<or>
         (e = ERR_VERTEX_C_ON_SIDE_B \<and>
          findGammaIntersectionPoints polygon nrOfPoints c (predecessor a nrOfPoints)
            (nth_point polygon (predecessor b nrOfPoints)) (nth_point polygon b)
            sideCStartVertex sideCEndVertex = Inr None)"
  using assms
  by (auto simp add: updateSidesBA_def Let_def split: sum.splits option.splits if_splits
        dest: findVertexCOnSideB_error)

lemma sweepSides_error:
  assumes "sweepSides polygon nrOfPoints a b c = Inl e"
  shows "e = AssertionFailed \<or>
         (e = ERR_SIDE_B_GAMMA \<and> gamma b polygon nrOfPoints a c = Inr None) \<or>
         (e = ERR_VERTEX_C_ON_SIDE_B \<and>
          findGammaIntersectionPoints polygon nrOfPoints c (predecessor a nrOfPoints)
            (nth_point polygon (predecessor b nrOfPoints)) (nth_point polygon b)
            (nth_point polygon (predecessor c nrOfPoints)) (nth_point polygon c) = Inr None)"
proof (cases "isNotBTangency polygon nrOfPoints a b c")
  case (Inl e')
  with assms have "e = e'"
    by (simp add: sweepSides_def updateSidesCA_def Let_def)
  with Inl show ?thesis using isNotBTangency_error by blast
next
  case (Inr notBTangency)
  show ?thesis
  proof (cases notBTangency)
    case True
    with assms Inr have "updateSidesBA polygon nrOfPoints a b c
        (nth_point polygon (predecessor a nrOfPoints)) (nth_point polygon a)
        (nth_point polygon (predecessor c nrOfPoints)) (nth_point polygon c) = Inl e"
      by (simp add: sweepSides_def updateSidesCA_def Let_def split: sum.splits prod.splits)
    from updateSidesBA_error [OF this] show ?thesis by blast
  next
    case False
    with assms Inr have "updateSideB polygon nrOfPoints a b c = Inl e"
      by (simp add: sweepSides_def updateSidesCA_def Let_def split: sum.splits prod.splits)
    from updateSideB_error [OF this] show ?thesis by blast
  qed
qed

lemma candidateTriangle_error:
  assumes "candidateTriangle polygon nrOfPoints a b c best = Inl e"
  shows "sweepSides polygon nrOfPoints a b c = Inl e"
  using assms
  by (cases "sweepSides polygon nrOfPoints a b c")
     (auto simp add: candidateTriangle_def split: option.splits prod.splits)

lemma moveAIfLowAndBIfHigh_error:
  assumes "moveAIfLowAndBIfHigh polygon nrOfPoints a b c = Some y"
  shows "\<forall>e. y = Inl e \<longrightarrow> e = AssertionFailed"
proof (rule moveAIfLowAndBIfHigh.raw_induct
    [where P = "\<lambda>_ _ _ _ _ y. \<forall>e. y = Inl e \<longrightarrow> e = AssertionFailed", OF _ assms],
    goal_cases)
  case (1 loop polygon nrOfPoints a b c y)
  then show ?case
    by (auto split: if_splits sum.splits option.splits dest: gamma_error)
qed

lemma searchForBTangency_error:
  assumes "searchForBTangency polygon nrOfPoints a b c = Some y"
  shows "\<forall>e. y = Inl e \<longrightarrow> e = AssertionFailed"
proof (rule searchForBTangency.raw_induct
    [where P = "\<lambda>_ _ _ _ _ y. \<forall>e. y = Inl e \<longrightarrow> e = AssertionFailed", OF _ assms],
    goal_cases)
  case (1 loop polygon nrOfPoints a b c y)
  then show ?case
    by (auto split: if_splits sum.splits option.splits dest: gamma_error)
qed

lemma sweepBody_error:
  assumes "sweepBody polygon nrOfPoints c (a0, b0, best) = Some (Inl e)"
  shows "e = AssertionFailed \<or>
         (\<exists>a b. e = ERR_SIDE_B_GAMMA \<and> gamma b polygon nrOfPoints a c = Inr None) \<or>
         (\<exists>a b. e = ERR_VERTEX_C_ON_SIDE_B \<and>
            findGammaIntersectionPoints polygon nrOfPoints c (predecessor a nrOfPoints)
              (nth_point polygon (predecessor b nrOfPoints)) (nth_point polygon b)
              (nth_point polygon (predecessor c nrOfPoints)) (nth_point polygon c) = Inr None)"
proof -
  obtain b1 where s1: "advanceBToRightChain polygon nrOfPoints b0 c = Some b1"
    using assms by (cases "advanceBToRightChain polygon nrOfPoints b0 c") (simp_all add: sweepBody_def)
  obtain r2 where s2: "moveAIfLowAndBIfHigh polygon nrOfPoints a0 b1 c = Some r2"
    using assms s1
    by (cases "moveAIfLowAndBIfHigh polygon nrOfPoints a0 b1 c") (simp_all add: sweepBody_def)
  show ?thesis
  proof (cases r2)
    case (Inl e2)
    with assms s1 s2 have "e = e2" by (simp add: sweepBody_def)
    with Inl s2 show ?thesis using moveAIfLowAndBIfHigh_error by blast
  next
    case (Inr ab)
    obtain a2 b2 where ab: "ab = (a2, b2)" by (cases ab) auto
    obtain r3 where s3: "searchForBTangency polygon nrOfPoints a2 b2 c = Some r3"
      using assms s1 s2 Inr ab
      by (cases "searchForBTangency polygon nrOfPoints a2 b2 c") (simp_all add: sweepBody_def)
    show ?thesis
    proof (cases r3)
      case (Inl e3)
      with assms s1 s2 Inr ab s3 have "e = e3" by (simp add: sweepBody_def)
      with Inl s3 show ?thesis using searchForBTangency_error by blast
    next
      case b3: (Inr b3)
      with assms s1 s2 Inr ab s3 have "candidateTriangle polygon nrOfPoints a2 b3 c best = Inl e"
        by (cases "candidateTriangle polygon nrOfPoints a2 b3 c best") (simp_all add: sweepBody_def)
      then have "sweepSides polygon nrOfPoints a2 b3 c = Inl e"
        by (rule candidateTriangle_error)
      from sweepSides_error [OF this] show ?thesis by blast
    qed
  qed
qed

text \<open>
  Claim C3, as amended. The sweep has three kinds of exception: \<open>ERR_SIDE_B_GAMMA\<close>,
  raised by \<open>updateSideB\<close> exactly when \<open>gamma(b)\<close> returns false;
  \<open>ERR_VERTEX_C_ON_SIDE_B\<close>, raised by \<open>findVertexCOnSideB\<close> exactly when
  \<open>findGammaIntersectionPoints\<close> returns false; and the failed \<open>CV_Assert\<close> of
  \<open>lineEquationDeterminedByPoints\<close>, raised exactly when the two points that define a line
  are equal within the threshold. An iteration of the sweep raises no other exception.
  When one of the three pairs of sides has no intersection, \<open>isLocalMinimalTriangle\<close>
  returns false and the iteration leaves the best triangle and its area as they were.
\<close>

theorem sweep_errors:
  "(updateSideB polygon nrOfPoints a b c = Inl ERR_SIDE_B_GAMMA \<longleftrightarrow>
      gamma b polygon nrOfPoints a c = Inr None) \<and>
   (findVertexCOnSideB polygon nrOfPoints a c sideBStartVertex sideBEndVertex
        sideCStartVertex sideCEndVertex = Inl ERR_VERTEX_C_ON_SIDE_B \<longleftrightarrow>
      findGammaIntersectionPoints polygon nrOfPoints c (predecessor a nrOfPoints)
        sideBStartVertex sideBEndVertex sideCStartVertex sideCEndVertex = Inr None) \<and>
   (lineEquationDeterminedByPoints p q = Inl e' \<longleftrightarrow> e' = AssertionFailed \<and> areEqualPoints p q) \<and>
   (sweepBody polygon nrOfPoints c (aStart, bStart, best) = Some (Inl e) \<longrightarrow>
      e = AssertionFailed \<or>
      (\<exists>a b. e = ERR_SIDE_B_GAMMA \<and> gamma b polygon nrOfPoints a c = Inr None) \<or>
      (\<exists>a b. e = ERR_VERTEX_C_ON_SIDE_B \<and>
         findGammaIntersectionPoints polygon nrOfPoints c (predecessor a nrOfPoints)
           (nth_point polygon (predecessor b nrOfPoints)) (nth_point polygon b)
           (nth_point polygon (predecessor c nrOfPoints)) (nth_point polygon c) = Inr None)) \<and>
   (sweepSides polygon nrOfPoints a b c =
      Inr (validationFlag, sideAStartVertex, sideAEndVertex, sideBStartVertex,
           sideBEndVertex, sideCStartVertex, sideCEndVertex) \<and>
    (lineIntersection sideAStartVertex sideAEndVertex sideBStartVertex sideBEndVertex = None \<or>
     lineIntersection sideAStartVertex sideAEndVertex sideCStartVertex sideCEndVertex = None \<or>
     lineIntersection sideBStartVertex sideBEndVertex sideCStartVertex sideCEndVertex = None)
    \<longrightarrow>
      isLocalMinimalTriangle polygon nrOfPoints a b validationFlag
        sideAStartVertex sideAEndVertex sideBStartVertex sideBEndVertex
        sideCStartVertex sideCEndVertex = None \<and>
      candidateTriangle polygon nrOfPoints a b c best = Inr best)"
proof (intro conjI impI)
  show "updateSideB polygon nrOfPoints a b c = Inl ERR_SIDE_B_GAMMA \<longleftrightarrow>
      gamma b polygon nrOfPoints a c = Inr None"
    by (rule updateSideB_gamma)
  show "findVertexCOnSideB polygon nrOfPoints a c sideBStartVertex sideBEndVertex
        sideCStartVertex sideCEndVertex = Inl ERR_VERTEX_C_ON_SIDE_B \<longleftrightarrow>
      findGammaIntersectionPoints polygon nrOfPoints c (predecessor a nrOfPoints)
        sideBStartVertex sideBEndVertex sideCStartVertex sideCEndVertex = Inr None"
    by (rule findVertexCOnSideB_gamma)
  show "lineEquationDeterminedByPoints p q = Inl e' \<longleftrightarrow> e' = AssertionFailed \<and> areEqualPoints p q"
    by (rule lineEquation_error)
next
  assume "sweepBody polygon nrOfPoints c (aStart, bStart, best) = Some (Inl e)"
  then show "e = AssertionFailed \<or>
      (\<exists>a b. e = ERR_SIDE_B_GAMMA \<and> gamma b polygon nrOfPoints a c = Inr None) \<or>
      (\<exists>a b. e = ERR_VERTEX_C_ON_SIDE_B \<and>
         findGammaIntersectionPoints polygon nrOfPoints c (predecessor a nrOfPoints)
           (nth_point polygon (predecessor b nrOfPoints)) (nth_point polygon b)
           (nth_point polygon (predecessor c nrOfPoints)) (nth_point polygon c) = Inr None)"
    by (rule sweepBody_error)
next
  assume h: "sweepSides polygon nrOfPoints a b c =
      Inr (validationFlag, sideAStartVertex, sideAEndVertex, sideBStartVertex,
           sideBEndVertex, sideCStartVertex, sideCEndVertex) \<and>
    (lineIntersection sideAStartVertex sideAEndVertex sideBStartVertex sideBEndVertex = None \<or>
     lineIntersection sideAStartVertex sideAEndVertex sideCStartVertex sideCEndVertex = None \<or>
     lineIntersection sideBStartVertex sideBEndVertex sideCStartVertex sideCEndVertex = None)"
  then show none: "isLocalMinimalTriangle polygon nrOfPoints a b validationFlag
        sideAStartVertex sideAEndVertex sideBStartVertex sideBEndVertex
        sideCStartVertex sideCEndVertex = None"
    using isLocalMinimalTriangle_parallel by blast
  from h none show "candidateTriangle polygon nrOfPoints a b c best = Inr best"
    using candidateTriangle_discards by blast
qed

lemma sq_gamma_parallel: "gamma 3 unitSquare 4 1 1 = Inr None"
  by (simp add: gamma_def findGammaIntersectionPoints_def unitSquare_def geom_defs)

lemma sq_findGamma_parallel:
  "findGammaIntersectionPoints unitSquare 4 1 (predecessor 1 4)
     (Point 0 1) (Point 1 1) (Point 0 0) (Point 1 0) = Inr None"
  by (simp add: findGammaIntersectionPoints_def unitSquare_def geom_defs)

lemma rt_sides_3:
  "sweepSides rightTrapezoid 4 0 2 3 =
     Inr (VALIDATION_SIDE_B_TANGENT, Point 2 0, Point 1 1, Point 2 0, Point 0 0,
          Point 0 0, Point 2 0)"
  by (simp add: sweep_defs rightTrapezoid_def geom_defs angle_defs)

lemma rt_parallel_3: "lineIntersection (Point 2 0) (Point 0 0) (Point 0 0) (Point 2 0) = None"
  by (simp add: geom_defs)

theorem sweep_errors_witness:
  "gamma 3 unitSquare 4 1 1 = Inr None \<and>
   updateSideB unitSquare 4 1 3 1 = Inl ERR_SIDE_B_GAMMA \<and>
   findVertexCOnSideB unitSquare 4 1 1 (Point 0 1) (Point 1 1) (Point 0 0) (Point 1 0)
     = Inl ERR_VERTEX_C_ON_SIDE_B \<and>
   areEqualPoints (Point 100001 100001) (Point 100000 100001) \<and>
   lineEquationDeterminedByPoints (Point 100001 100001) (Point 100000 100001)
     = Inl AssertionFailed \<and>
   sweepBody wideTrapezoid 4 0 (1, 2, initialise) = Some (Inl AssertionFailed) \<and>
   sweepSides rightTrapezoid 4 0 2 3 =
     Inr (VALIDATION_SIDE_B_TANGENT, Point 2 0, Point 1 1, Point 2 0, Point 0 0,
          Point 0 0, Point 2 0) \<and>
   lineIntersection (Point 2 0) (Point 0 0) (Point 0 0) (Point 2 0) = None \<and>
   candidateTriangle rightTrapezoid 4 0 2 3 ([Point 2 0, Point 0 2, Point 0 0], 2)
     = Inr ([Point 2 0, Point 0 2, Point 0 0], 2)"
proof -
  have eq: "areEqualPoints (Point 100001 100001) (Point 100000 100001)"
    by (simp add: geom_defs)
  note thm1 = sweep_errors
    [where polygon = unitSquare and nrOfPoints = 4 and a = 1 and b = 3 and c = 1
       and sideBStartVertex = "Point 0 1" and sideBEndVertex = "Point 1 1"
       and sideCStartVertex = "Point 0 0" and sideCEndVertex = "Point 1 0"
       and p = "Point 100001 100001" and q = "Point 100000 100001" and e' = AssertionFailed]
  note thm2 = sweep_errors
    [where polygon = wideTrapezoid and nrOfPoints = 4 and c = 0 and aStart = 1 and bStart = 2
       and best = initialise and e = AssertionFailed]
  note thm3 = sweep_errors
    [where polygon = rightTrapezoid and nrOfPoints = 4 and a = 0 and b = 2 and c = 3
       and validationFlag = VALIDATION_SIDE_B_TANGENT
       and sideAStartVertex = "Point 2 0" and sideAEndVertex = "Point 1 1"
       and sideBStartVertex = "Point 2 0" and sideBEndVertex = "Point 0 0"
       and sideCStartVertex = "Point 0 0" and sideCEndVertex = "Point 2 0"
       and best = "([Point 2 0, Point 0 2, Point 0 0], 2)"]
  from thm1 thm2 thm3 sq_gamma_parallel sq_findGamma_parallel eq wt_body_0 rt_sides_3 rt_parallel_3
  show ?thesis by simp
qed

text \<open>
  Claim C3 as stated fails: the sweep on the wide trapezoid ends with an exception that is
  neither of the two named errors.
\<close>

theorem sweep_errors_counterexample:
  "findMinimumAreaEnclosingTriangle wideTrapezoid initialise = Some (Inl AssertionFailed) \<and>
   AssertionFailed \<noteq> ERR_SIDE_B_GAMMA \<and> AssertionFailed \<noteq> ERR_VERTEX_C_ON_SIDE_B"
  using wt_sweep by simp

subsection \<open>When \<open>gamma\<close> fails\<close>

lemma areIntersectingLines_None:
  "areIntersectingLines (a1, b1, c1) (a2, b2, c2) extra = None \<longleftrightarrow>
     almostEqual (a1 * b2 - a2 * b1) 0"
  by (simp add: areIntersectingLines_def lineIntersection_coef_def Let_def)

lemma findGammaIntersectionPoints_cases:
  assumes "lineEquationParameters side1StartVertex side1EndVertex = Inr (a1, b1, c1)"
    and "lineEquationParameters side2StartVertex side2EndVertex = Inr (a2, b2, c2)"
  shows "findGammaIntersectionPoints polygon nrOfPoints c i
           side1StartVertex side1EndVertex side2StartVertex side2EndVertex =
         (case areIntersectingLines (a1, b1, c1) (a2, b2, c2)
                 (2 * height i polygon nrOfPoints c * sqrt (a2 * a2 + b2 * b2)) of
            None \<Rightarrow> Inr None
          | Some (intersectionPoint1, intersectionPoint2) \<Rightarrow>
              if areIdenticalLines (a1, b1, c1) (a2, b2, c2)
                   (2 * height i polygon nrOfPoints c * sqrt (a2 * a2 + b2 * b2))
              then Inr (Some (side1StartVertex, side1EndVertex))
              else Inr (Some (intersectionPoint1, intersectionPoint2)))"
  using assms by (simp add: findGammaIntersectionPoints_def Let_def)

lemma gamma_None_iff:
  assumes l1: "lineEquationParameters (nth_point polygon a)
                 (nth_point polygon (predecessor a nrOfPoints)) = Inr (a1, b1, c1)"
    and l2: "lineEquationParameters (nth_point polygon c)
                 (nth_point polygon (predecessor c nrOfPoints)) = Inr (a2, b2, c2)"
  shows "gamma i polygon nrOfPoints a c = Inr None \<longleftrightarrow>
         areIntersectingLines (a1, b1, c1) (a2, b2, c2)
           (2 * height i polygon nrOfPoints c * sqrt (a2 * a2 + b2 * b2)) = None"
proof -
  from l2 have same: "areOnTheSameSideOfLine p1 p2 (nth_point polygon c)
                 (nth_point polygon (predecessor c nrOfPoints)) \<noteq> Inl e" for p1 p2 e
    by (auto simp add: areOnTheSameSideOfLine_def lineEquationParameters_def split: sum.splits)
  show ?thesis
    unfolding gamma_def findGammaIntersectionPoints_cases [OF l1 l2]
    using same
    by (auto split: option.splits sum.splits prod.splits if_splits)
qed

lemma house_lines:
  "lineEquationParameters (nth_point housePentagon 4)
     (nth_point housePentagon (predecessor 4 5)) = Inr (0, - 2, 4)"
  "lineEquationParameters (nth_point housePentagon 1)
     (nth_point housePentagon (predecessor 1 5)) = Inr (0, 2, 0)"
  by (simp_all add: housePentagon_def geom_defs)

text \<open>
  Claim C8: the code misses the case of coinciding lines. In the pentagon, for \<open>c = 1\<close>,
  \<open>a = 4\<close> and the vertex of index 2, side A is the line \<open>y = 2\<close> and so is side C
  moved by twice the height of the vertex: \<open>areIdenticalLines\<close> holds, and \<open>gamma\<close>
  returns false all the same. The branch of \<open>findGammaIntersectionPoints\<close> that returns the
  two endpoints of side A for identical lines comes after the test \<open>areIntersectingLines\<close>,
  which fails for them: their determinant is 0. The same happens for \<open>a = c = 1\<close> and
  the vertex of index 1, where side A is side C and the height is 0.
\<close>

theorem gamma_coincident_sides:
  "lineEquationParameters (nth_point housePentagon 4)
     (nth_point housePentagon (predecessor 4 5)) = Inr (0, - 2, 4) \<and>
   lineEquationParameters (nth_point housePentagon 1)
     (nth_point housePentagon (predecessor 1 5)) = Inr (0, 2, 0) \<and>
   2 * height 2 housePentagon 5 1 * sqrt (0 * 0 + 2 * 2) = 4 \<and>
   areIdenticalLines (0, - 2, 4) (0, 2, 0) 4 \<and>
   areIntersectingLines (0, - 2, 4) (0, 2, 0) 4 = None \<and>
   gamma 2 housePentagon 5 4 1 = Inr None \<and>
   2 * height 1 housePentagon 5 1 * sqrt (0 * 0 + 2 * 2) = 0 \<and>
   areIdenticalLines (0, 2, 0) (0, 2, 0) 0 \<and>
   areIntersectingLines (0, 2, 0) (0, 2, 0) 0 = None \<and>
   gamma 1 housePentagon 5 1 1 = Inr None"
  using house_lines
  by (simp add: gamma_def findGammaIntersectionPoints_def housePentagon_def geom_defs)

subsection \<open>Step S2: \<open>moveAIfLowAndBIfHigh\<close>\<close>

lemma moveAIfLowAndBIfHigh_exit:
  assumes "moveAIfLowAndBIfHigh polygon nrOfPoints a b c = Some y"
  shows "\<forall>a' b'. y = Inr (a', b') \<longrightarrow>
           \<not> height b' polygon nrOfPoints c > height a' polygon nrOfPoints c"
proof (rule moveAIfLowAndBIfHigh.raw_induct
    [where P = "\<lambda>polygon nrOfPoints a b c y. \<forall>a' b'. y = Inr (a', b') \<longrightarrow>
           \<not> height b' polygon nrOfPoints c > height a' polygon nrOfPoints c", OF _ assms],
    goal_cases)
  case (1 loop polygon nrOfPoints a b c y)
  then show ?case
    by (auto split: if_splits sum.splits option.splits)
qed

text \<open>
  Claim C2, as amended. The loop of \<open>moveAIfLowAndBIfHigh\<close> runs exactly while
  \<open>height(b) > height(a)\<close>: it returns at once when the test fails, and what it returns
  fails the test. In an iteration \<open>b\<close> advances exactly when \<open>gamma(a)\<close> exists and the
  line through \<open>gamma(a)\<close> and \<open>P[b]\<close> intersects the polygon below at \<open>b\<close>; in every
  other case \<open>a\<close> advances, unless \<open>gamma\<close> throws.
\<close>

theorem moveAIfLowAndBIfHigh_steps:
  "(\<not> height b polygon nrOfPoints c > height a polygon nrOfPoints c \<longrightarrow>
      moveAIfLowAndBIfHigh polygon nrOfPoints a b c = Some (Inr (a, b))) \<and>
   (height b polygon nrOfPoints c > height a polygon nrOfPoints c \<and>
    gamma a polygon nrOfPoints a c = Inl e \<longrightarrow>
      moveAIfLowAndBIfHigh polygon nrOfPoints a b c = Some (Inl e)) \<and>
   (height b polygon nrOfPoints c > height a polygon nrOfPoints c \<and>
    gamma a polygon nrOfPoints a c = Inr g \<longrightarrow>
      moveAIfLowAndBIfHigh polygon nrOfPoints a b c =
        (if \<exists>gammaOfA. g = Some gammaOfA \<and>
              intersects (angleOfLineWrtOxAxis (nth_point polygon b) gammaOfA)
                b polygon nrOfPoints c = INTERSECTS_BELOW
         then moveAIfLowAndBIfHigh polygon nrOfPoints a (successor b nrOfPoints) c
         else moveAIfLowAndBIfHigh polygon nrOfPoints (successor a nrOfPoints) b c)) \<and>
   (moveAIfLowAndBIfHigh polygon nrOfPoints a b c = Some (Inr (a', b')) \<longrightarrow>
      \<not> height b' polygon nrOfPoints c > height a' polygon nrOfPoints c)"
proof (intro conjI impI)
  assume "\<not> height b polygon nrOfPoints c > height a polygon nrOfPoints c"
  then show "moveAIfLowAndBIfHigh polygon nrOfPoints a b c = Some (Inr (a, b))"
    by (subst moveAIfLowAndBIfHigh.simps) simp
next
  assume "height b polygon nrOfPoints c > height a polygon nrOfPoints c \<and>
    gamma a polygon nrOfPoints a c = Inl e"
  then show "moveAIfLowAndBIfHigh polygon nrOfPoints a b c = Some (Inl e)"
    by (subst moveAIfLowAndBIfHigh.simps) simp
next
  assume h: "height b polygon nrOfPoints c > height a polygon nrOfPoints c \<and>
    gamma a polygon nrOfPoints a c = Inr g"
  show "moveAIfLowAndBIfHigh polygon nrOfPoints a b c =
        (if \<exists>gammaOfA. g = Some gammaOfA \<and>
              intersects (angleOfLineWrtOxAxis (nth_point polygon b) gammaOfA)
                b polygon nrOfPoints c = INTERSECTS_BELOW
         then moveAIfLowAndBIfHigh polygon nrOfPoints a (successor b nrOfPoints) c
         else moveAIfLowAndBIfHigh polygon nrOfPoints (successor a nrOfPoints) b c)"
  proof (cases g)
    case None
    with h show ?thesis
      by (subst moveAIfLowAndBIfHigh.simps) (simp add: advance_def)
  next
    case (Some gammaOfA)
    with h show ?thesis
      by (subst moveAIfLowAndBIfHigh.simps) (simp add: advance_def intersectsBelow_def Let_def)
  qed
next
  assume "moveAIfLowAndBIfHigh polygon nrOfPoints a b c = Some (Inr (a', b'))"
  from moveAIfLowAndBIfHigh_exit [OF this]
  show "\<not> height b' polygon nrOfPoints c > height a' polygon nrOfPoints c"
    by simp
qed

lemma rt_heights: "height 2 rightTrapezoid 4 0 > height 1 rightTrapezoid 4 0"
  by (simp add: rightTrapezoid_def geom_defs divide_less_cancel)

lemma rt_gamma: "gamma 1 rightTrapezoid 4 1 0 = Inr (Some (Point (- 1) 1))"
  by (simp add: gamma_def findGammaIntersectionPoints_def rightTrapezoid_def geom_defs)

lemma rt_code:
  "intersects (angleOfLineWrtOxAxis (nth_point rightTrapezoid 2) (Point (- 1) 1))
     2 rightTrapezoid 4 0 = INTERSECTS_CRITICAL"
  by (simp add: sweep_defs rightTrapezoid_def geom_defs angle_defs)

lemma rt_spec:
  "intersects (angleOfLineWrtOxAxis (nth_point rightTrapezoid 1) (Point (- 1) 1))
     2 rightTrapezoid 4 0 = INTERSECTS_BELOW"
  by (simp add: sweep_defs rightTrapezoid_def geom_defs angle_defs)

lemma rt_S2: "moveAIfLowAndBIfHigh rightTrapezoid 4 1 2 0 = Some (Inr (2, 2))"
  by (simp add: moveAIfLowAndBIfHigh.simps sweep_defs rightTrapezoid_def geom_defs angle_defs
        divide_less_cancel)

lemma rt_S2_spec: "moveAIfLowAndBIfHigh_spec rightTrapezoid 4 1 2 0 = Some (Inr (1, 3))"
  by (simp add: moveAIfLowAndBIfHigh_spec.simps sweep_defs rightTrapezoid_def geom_defs
        angle_defs divide_less_cancel)

lemma house_heights: "height 2 housePentagon 5 0 > height 1 housePentagon 5 0"
  by (simp add: housePentagon_def geom_defs)

lemma house_gamma: "gamma 1 housePentagon 5 1 0 = Inr (Some (Point 4 0))"
  by (simp add: gamma_def findGammaIntersectionPoints_def housePentagon_def geom_defs)

lemma house_code:
  "intersects (angleOfLineWrtOxAxis (nth_point housePentagon 2) (Point 4 0))
     2 housePentagon 5 0 = INTERSECTS_BELOW"
  by (simp add: sweep_defs housePentagon_def geom_defs angle_defs)

lemma house_S2: "moveAIfLowAndBIfHigh housePentagon 5 1 2 0 = Some (Inr (1, 3))"
  by (simp add: moveAIfLowAndBIfHigh.simps sweep_defs housePentagon_def geom_defs angle_defs)

lemma house_S2_exit: "moveAIfLowAndBIfHigh housePentagon 5 1 3 0 = Some (Inr (1, 3))"
  by (simp add: moveAIfLowAndBIfHigh.simps sweep_defs housePentagon_def geom_defs angle_defs)

theorem moveAIfLowAndBIfHigh_steps_witness:
  "height 2 rightTrapezoid 4 0 > height 1 rightTrapezoid 4 0 \<and>
   gamma 1 rightTrapezoid 4 1 0 = Inr (Some (Point (- 1) 1)) \<and>
   intersects (angleOfLineWrtOxAxis (nth_point rightTrapezoid 2) (Point (- 1) 1))
     2 rightTrapezoid 4 0 \<noteq> INTERSECTS_BELOW \<and>
   moveAIfLowAndBIfHigh rightTrapezoid 4 1 2 0
     = moveAIfLowAndBIfHigh rightTrapezoid 4 (successor 1 4) 2 0 \<and>
   moveAIfLowAndBIfHigh rightTrapezoid 4 1 2 0 = Some (Inr (2, 2)) \<and>
   \<not> height 2 rightTrapezoid 4 0 > height 2 rightTrapezoid 4 0 \<and>
   height 2 housePentagon 5 0 > height 1 housePentagon 5 0 \<and>
   gamma 1 housePentagon 5 1 0 = Inr (Some (Point 4 0)) \<and>
   intersects (angleOfLineWrtOxAxis (nth_point housePentagon 2) (Point 4 0))
     2 housePentagon 5 0 = INTERSECTS_BELOW \<and>
   moveAIfLowAndBIfHigh housePentagon 5 1 2 0
     = moveAIfLowAndBIfHigh housePentagon 5 1 (successor 2 5) 0 \<and>
   \<not> height 3 housePentagon 5 0 > height 1 housePentagon 5 0 \<and>
   moveAIfLowAndBIfHigh housePentagon 5 1 3 0 = Some (Inr (1, 3))"
proof -
  note rt = moveAIfLowAndBIfHigh_steps
    [where polygon = rightTrapezoid and nrOfPoints = 4 and a = 1 and b = 2 and c = 0
       and g = "Some (Point (- 1) 1)" and a' = 2 and b' = 2]
  note house = moveAIfLowAndBIfHigh_steps
    [where polygon = housePentagon and nrOfPoints = 5 and a = 1 and b = 2 and c = 0
       and g = "Some (Point 4 0)" and a' = 1 and b' = 3]
  note exit = moveAIfLowAndBIfHigh_steps
    [where polygon = housePentagon and nrOfPoints = 5 and a = 1 and b = 3 and c = 0
       and a' = 1 and b' = 3]
  have "\<not> height 3 housePentagon 5 0 > height 1 housePentagon 5 0"
    by (simp add: housePentagon_def geom_defs)
  with rt house exit rt_heights rt_gamma rt_code rt_S2 house_heights house_gamma house_code
  show ?thesis by simp
qed

text \<open>
  Claim C2 as stated fails. In the first state of the sweep on the right trapezoid the line
  through \<open>gamma(a)\<close> and \<open>P[a]\<close> intersects below at \<open>b\<close>, so the specification's
  loop advances \<open>b\<close> and returns \<open>(1, 3)\<close>; the line through \<open>gamma(a)\<close> and
  \<open>P[b]\<close> does not, so the source's loop advances \<open>a\<close> and returns \<open>(2, 2)\<close>.
\<close>

theorem moveAIfLowAndBIfHigh_counterexample:
  "height 2 rightTrapezoid 4 0 > height 1 rightTrapezoid 4 0 \<and>
   gamma 1 rightTrapezoid 4 1 0 = Inr (Some (Point (- 1) 1)) \<and>
   intersects (angleOfLineWrtOxAxis (nth_point rightTrapezoid 1) (Point (- 1) 1))
     2 rightTrapezoid 4 0 = INTERSECTS_BELOW \<and>
   moveAIfLowAndBIfHigh_spec rightTrapezoid 4 1 2 0 = Some (Inr (1, 3)) \<and>
   intersects (angleOfLineWrtOxAxis (nth_point rightTrapezoid 2) (Point (- 1) 1))
     2 rightTrapezoid 4 0 = INTERSECTS_CRITICAL \<and>
   moveAIfLowAndBIfHigh rightTrapezoid 4 1 2 0 = Some (Inr (2, 2))"
  using rt_heights rt_gamma rt_spec rt_S2_spec rt_code rt_S2 by simp

end
